theory Spec2Isabelle
  imports Main "HOL-Library.Word"
begin

section \<open>The value type system\<close>

text \<open>
  The tags of \<^verbatim>\<open>plugify::ValueType\<close> that the switch statements of
  \<^verbatim>\<open>src/module.cpp\<close> name. A tag that a switch does not list reaches its
  \<^verbatim>\<open>default:\<close> branch.
\<close>

datatype ValueType =
    Void | Bool | Char8 | Char16
  | Int8 | Int16 | Int32 | Int64
  | UInt8 | UInt16 | UInt32 | UInt64
  | Pointer | Float | Double | Function | String
  | ArrayBool | ArrayChar8 | ArrayChar16
  | ArrayInt8 | ArrayInt16 | ArrayInt32 | ArrayInt64
  | ArrayUInt8 | ArrayUInt16 | ArrayUInt32 | ArrayUInt64
  | ArrayPointer | ArrayFloat | ArrayDouble | ArrayString
  | Vector2 | Vector3 | Vector4 | Matrix4x4

text \<open>
  The C++ types that the templates \<^verbatim>\<open>ValueFromObject<T>\<close>,
  \<^verbatim>\<open>CreateValue<T>\<close>, \<^verbatim>\<open>GetArgument<T>\<close> and the casts of the
  call scope are instantiated with. \<^verbatim>\<open>c_vector T\<close> is \<^verbatim>\<open>std::vector<T>\<close>.
\<close>

datatype ctype =
    c_bool | c_char | c_char16
  | c_int8 | c_int16 | c_int32 | c_int64
  | c_uint8 | c_uint16 | c_uint32 | c_uint64
  | c_voidptr | c_uintptr | c_float | c_double | c_string
  | c_Vector2 | c_Vector3 | c_Vector4 | c_Matrix4x4
  | c_vector ctype

type_synonym addr = "64 word"
type_synonym byte = "8 word"

text \<open>
  Native values, one constructor per C++ type. A \<^verbatim>\<open>float\<close> is its 32 bits and a
  \<^verbatim>\<open>double\<close> its 64 bits; \<^verbatim>\<open>NVoid\<close> is the absence of a value.
\<close>

datatype nval =
    NVoid
  | NBool bool
  | NChar byte
  | NChar16 "16 word"
  | NInt8 "8 word" | NInt16 "16 word" | NInt32 "32 word" | NInt64 "64 word"
  | NUInt8 "8 word" | NUInt16 "16 word" | NUInt32 "32 word" | NUInt64 "64 word"
  | NVoidPtr addr
  | NUIntPtr "64 word"
  | NFloat "32 word"
  | NDouble "64 word"
  | NString "byte list"
  | NVector2 "32 word" "32 word"
  | NVector3 "32 word" "32 word" "32 word"
  | NVector4 "32 word" "32 word" "32 word" "32 word"
  | NMatrix4x4 "32 word list"
  | NVector ctype "nval list"
  | NSlotPtr nat

fun ctype_of :: "nval \<Rightarrow> ctype option" where
  "ctype_of NVoid = None"
| "ctype_of (NBool _) = Some c_bool"
| "ctype_of (NChar _) = Some c_char"
| "ctype_of (NChar16 _) = Some c_char16"
| "ctype_of (NInt8 _) = Some c_int8"
| "ctype_of (NInt16 _) = Some c_int16"
| "ctype_of (NInt32 _) = Some c_int32"
| "ctype_of (NInt64 _) = Some c_int64"
| "ctype_of (NUInt8 _) = Some c_uint8"
| "ctype_of (NUInt16 _) = Some c_uint16"
| "ctype_of (NUInt32 _) = Some c_uint32"
| "ctype_of (NUInt64 _) = Some c_uint64"
| "ctype_of (NVoidPtr _) = Some c_voidptr"
| "ctype_of (NUIntPtr _) = Some c_uintptr"
| "ctype_of (NFloat _) = Some c_float"
| "ctype_of (NDouble _) = Some c_double"
| "ctype_of (NString _) = Some c_string"
| "ctype_of (NVector2 _ _) = Some c_Vector2"
| "ctype_of (NVector3 _ _ _) = Some c_Vector3"
| "ctype_of (NVector4 _ _ _ _) = Some c_Vector4"
| "ctype_of (NMatrix4x4 _) = Some c_Matrix4x4"
| "ctype_of (NVector T _) = Some (c_vector T)"
| "ctype_of (NSlotPtr _) = None"

text \<open>\<^verbatim>\<open>Property\<close> and \<^verbatim>\<open>Method\<close> as the code reads them: the type tag, the
  reference flag, and the nested prototype of a function-typed property.\<close>

datatype Property = Property (ptype: ValueType) (ref: bool) (prototype: "Method option")
and Method = Method (funcName: "byte list") (paramTypes: "Property list") (retType: Property)

section \<open>Script objects and the script runtime's state\<close>

datatype pyclass = Vector2Type | Vector3Type | Vector4Type | Matrix4x4Type | OtherType nat

text \<open>
  Script objects. A string is its list of code points. \<^verbatim>\<open>PyList\<close> and \<^verbatim>\<open>PyTuple\<close>
  carry whether the object's type is exactly \<^verbatim>\<open>list\<close> / \<^verbatim>\<open>tuple\<close> (the code uses
  both \<^verbatim>\<open>_Check\<close> and \<^verbatim>\<open>_CheckExact\<close>). \<^verbatim>\<open>PyFunction\<close> is a function defined
  in script code, \<^verbatim>\<open>PyCFunction\<close> a built-in function object wrapping the native
  entry point it carries, \<^verbatim>\<open>PyInstance\<close> an instance of a class with its data
  attributes.
\<close>

datatype pyobj =
    PyNone
  | PyBool bool
  | PyLong int
  | PyFloat "64 word"
  | PyUnicode "nat list"
  | PyList bool "pyobj list"
  | PyTuple bool "pyobj list"
  | PyFunction nat
  | PyCFunction addr
  | PyInstance pyclass "(string \<times> pyobj) list"
  | PyOther nat

datatype pyexc =
    TypeError string
  | ValueError string
  | OverflowError
  | RuntimeError string
  | AttributeError string
  | IndexError
  | UnicodeEncodeError
  | UnicodeDecodeError
  | SystemError
  | SystemExit
  | ScriptException nat

text \<open>What ends the process or is undefined behaviour in the C++: \<^verbatim>\<open>std::terminate()\<close>,
  the exit of the process from inside the script runtime, a null pointer read, an
  object read as a type it does not have.\<close>

datatype fault = Terminate | Exit | NullDeref | BadAccess

datatype dcarg = DcValue nval | DcStorage nat

text \<open>
  The state the code works on: the script runtime's error indicator and what
  \<^verbatim>\<open>PyErr_Print\<close> has printed, the two maps of the function cache with the
  lists that own the generated wrappers, the number of trampolines requested from the
  JIT so far, the native calls made through the calling-convention emulation, and the
  temporaries deleted by call scopes, each with the C++ type it was deleted as.
\<close>

record mstate =
  err :: "pyexc option"
  printed :: "pyexc list"
  externalMap :: "addr \<Rightarrow> pyobj option"
  internalMap :: "pyobj \<Rightarrow> addr option"
  internalFunctions :: "(addr \<times> pyobj) list"
  externalFunctions :: "(addr \<times> addr \<times> pyobj) list"
  jitCount :: nat
  calls :: "(addr \<times> dcarg list) list"
  freed :: "(nval \<times> ctype) list"

text \<open>
  What the code consumes from outside this repository: the build target, the
  C conversions between \<^verbatim>\<open>float\<close> and \<^verbatim>\<open>double\<close>, the constructors of the
  geometry classes of the script side, the behaviour of script callables, the JIT
  (\<^verbatim>\<open>Function::GetJitFunc\<close>: the address of the n-th trampoline requested, null on failure), the
  native functions behind addresses (return value and the new contents of the
  temporaries they were given), and plugify's \<^verbatim>\<open>ValueUtils::IsObject\<close> and
  \<^verbatim>\<open>ValueUtils::IsHiddenParam\<close>.
\<close>

record env =
  windows :: bool
  d2f :: "64 word \<Rightarrow> 32 word"
  f2d :: "32 word \<Rightarrow> 64 word"
  construct :: "pyclass \<Rightarrow> pyobj list \<Rightarrow> pyexc + pyobj"
  script :: "pyobj \<Rightarrow> pyobj list \<Rightarrow> mstate \<Rightarrow> (pyexc + pyobj) \<times> mstate"
  GetJitFunc :: "Method \<Rightarrow> nat \<Rightarrow> addr"
  native :: "addr \<Rightarrow> dcarg list \<Rightarrow> nval list \<Rightarrow> nval \<times> nval list"
  IsObject :: "ValueType \<Rightarrow> bool"
  IsHiddenParam :: "ValueType \<Rightarrow> bool"

definition PyErr_Set :: "pyexc \<Rightarrow> mstate \<Rightarrow> mstate" where
  "PyErr_Set e st = st\<lparr>err := Some e\<rparr>"

definition PyErr_Occurred :: "mstate \<Rightarrow> bool" where
  "PyErr_Occurred st = (err st \<noteq> None)"

text \<open>
  \<^verbatim>\<open>PyErr_Print\<close> prints the pending exception and clears the error indicator,
  except for \<^verbatim>\<open>SystemExit\<close>: then it ends the process (the module initialises the
  runtime from \<^verbatim>\<open>PyConfig_InitIsolatedConfig\<close>, which leaves \<^verbatim>\<open>inspect\<close>
  off). With nothing pending it does nothing.
\<close>

definition PyErr_Print :: "mstate \<Rightarrow> fault + mstate" where
  "PyErr_Print st =
     (case err st of
        None \<Rightarrow> Inr st
      | Some exc \<Rightarrow>
          if exc = SystemExit then Inl Exit
          else Inr (st\<lparr>err := None, printed := printed st @ [exc]\<rparr>))"


section \<open>Strings: UTF-8 and the C library's character conversions\<close>

text \<open>
  \<^verbatim>\<open>PyUnicode_AsUTF8\<close> / \<^verbatim>\<open>PyUnicode_AsUTF8AndSize\<close>: the UTF-8 bytes of a
  string, or \<^verbatim>\<open>NULL\<close> with \<^verbatim>\<open>UnicodeEncodeError\<close> when it holds a surrogate
  code point.
\<close>

definition utf8_encode_cp :: "nat \<Rightarrow> byte list option" where
  "utf8_encode_cp c =
     (if c < 128 then Some [of_nat c]
      else if c < 2048 then Some [of_nat (192 + c div 64), of_nat (128 + c mod 64)]
      else if 55296 \<le> c \<and> c < 57344 then None
      else if c < 65536 then
        Some [of_nat (224 + c div 4096), of_nat (128 + (c div 64) mod 64), of_nat (128 + c mod 64)]
      else if c < 1114112 then
        Some [of_nat (240 + c div 262144), of_nat (128 + (c div 4096) mod 64),
              of_nat (128 + (c div 64) mod 64), of_nat (128 + c mod 64)]
      else None)"

fun utf8_encode :: "nat list \<Rightarrow> byte list option" where
  "utf8_encode [] = Some []"
| "utf8_encode (c # cs) =
     (case utf8_encode_cp c of
        None \<Rightarrow> None
      | Some bs \<Rightarrow> (case utf8_encode cs of None \<Rightarrow> None | Some r \<Rightarrow> Some (bs @ r)))"

definition is_cont :: "nat \<Rightarrow> bool" where
  "is_cont b = (128 \<le> b \<and> b < 192)"

text \<open>The first code point of a UTF-8 byte sequence (bytes as numbers) and the bytes
  after it; \<^verbatim>\<open>None\<close> when the sequence does not start with a well-formed character
  (overlong forms, surrogates and values past U+10FFFF are ill-formed).\<close>

fun utf8_decode_first :: "nat list \<Rightarrow> (nat \<times> nat list) option" where
  "utf8_decode_first [] = None"
| "utf8_decode_first (b0 # bs) =
     (if b0 < 128 then Some (b0, bs)
      else if 194 \<le> b0 \<and> b0 < 224 then
        (case bs of
           b1 # r \<Rightarrow> if is_cont b1 then Some ((b0 - 192) * 64 + (b1 - 128), r) else None
         | _ \<Rightarrow> None)
      else if 224 \<le> b0 \<and> b0 < 240 then
        (case bs of
           b1 # b2 # r \<Rightarrow>
             (let cp = (b0 - 224) * 4096 + (b1 - 128) * 64 + (b2 - 128) in
              if is_cont b1 \<and> is_cont b2 \<and> 2048 \<le> cp \<and> (cp < 55296 \<or> 57344 \<le> cp)
              then Some (cp, r) else None)
         | _ \<Rightarrow> None)
      else if 240 \<le> b0 \<and> b0 < 245 then
        (case bs of
           b1 # b2 # b3 # r \<Rightarrow>
             (let cp = (b0 - 240) * 262144 + (b1 - 128) * 4096 + (b2 - 128) * 64 + (b3 - 128) in
              if is_cont b1 \<and> is_cont b2 \<and> is_cont b3 \<and> 65536 \<le> cp \<and> cp < 1114112
              then Some (cp, r) else None)
         | _ \<Rightarrow> None)
      else None)"

text \<open>\<^verbatim>\<open>PyUnicode_FromStringAndSize\<close> decodes strictly. The recursion is on the
  bytes left, bounded by their number.\<close>

fun utf8_decode_fuel :: "nat \<Rightarrow> nat list \<Rightarrow> nat list option" where
  "utf8_decode_fuel 0 bs = (if bs = [] then Some [] else None)"
| "utf8_decode_fuel (Suc n) bs =
     (if bs = [] then Some []
      else (case utf8_decode_first bs of
              None \<Rightarrow> None
            | Some (cp, rest) \<Rightarrow> map_option ((#) cp) (utf8_decode_fuel n rest)))"

definition utf8_decode :: "byte list \<Rightarrow> nat list option" where
  "utf8_decode bs = utf8_decode_fuel (length bs) (map unat bs)"

text \<open>
  \<^verbatim>\<open>std::mbrtoc16(&ch, buffer, size, &state)\<close> on a fresh state in a UTF-8 locale:
  the return code and the code unit stored. A null \<^verbatim>\<open>buffer\<close> is read as the empty
  string (return code 0); the null character gives 0; a character outside the basic
  plane gives its byte count 4 and stores the high surrogate.
\<close>

definition mbrtoc16 :: "byte list option \<Rightarrow> int \<times> 16 word" where
  "mbrtoc16 buffer =
     (case buffer of
        None \<Rightarrow> (0, 0)
      | Some bs \<Rightarrow>
          (if bs = [] then (- 2, 0)
           else (case utf8_decode_first (map unat bs) of
                   None \<Rightarrow> (- 1, 0)
                 | Some (cp, rest) \<Rightarrow>
                     (if cp = 0 then (0, 0)
                      else if cp < 65536 then (int (length bs - length rest), of_nat cp)
                      else (int (length bs - length rest),
                            of_nat (55296 + (cp - 65536) div 1024))))))"

text \<open>
  \<^verbatim>\<open>std::c16rtomb(out, value, &state)\<close> on a fresh state in a UTF-8 locale: the bytes
  written, or \<^verbatim>\<open>None\<close> for the return code -1. A high surrogate is kept in the
  state and writes nothing; a low surrogate on its own is an error.
\<close>

definition c16rtomb :: "16 word \<Rightarrow> byte list option" where
  "c16rtomb v =
     (if 55296 \<le> unat v \<and> unat v < 56320 then Some []
      else utf8_encode_cp (unat v))"

section \<open>The value marshaler: script value to native value\<close>

unbundle bit_operations_syntax

text \<open>\<^verbatim>\<open>ValueFromObject<bool>\<close>.\<close>

definition ValueFromObject_bool :: "pyobj \<Rightarrow> mstate \<Rightarrow> nval option \<times> mstate" where
  "ValueFromObject_bool object st =
     (case object of
        PyBool b \<Rightarrow> (Some (NBool b), st)
      | _ \<Rightarrow> (None, PyErr_Set (TypeError ''Not boolean'') st))"

text \<open>
  \<^verbatim>\<open>ValueFromObject<char>\<close>. For a string of length 1 the code reads
  \<^verbatim>\<open>PyUnicode_AsUTF8(object)[0]\<close> without testing the pointer, which is null when
  the character is a surrogate code point. After \<^verbatim>\<open>PyErr_SetNone(PyExc_ValueError)\<close>
  control falls through to the final \<^verbatim>\<open>PyErr_SetString(PyExc_TypeError, "Not string")\<close>.
\<close>

definition ValueFromObject_char :: "pyobj \<Rightarrow> mstate \<Rightarrow> fault + (nval option \<times> mstate)" where
  "ValueFromObject_char object st =
     (case object of
        PyUnicode cs \<Rightarrow>
          (if length cs = 0 then Inr (Some (NChar 0), st)
           else if length cs = 1 then
             (case utf8_encode cs of
                None \<Rightarrow> Inl NullDeref
              | Some bs \<Rightarrow>
                  (let ch = (case bs of [] \<Rightarrow> 0 | b # _ \<Rightarrow> b) in
                   if ch AND 128 = 0 then Inr (Some (NChar ch), st)
                   else Inr (None, PyErr_Set (TypeError ''Not string'') (PyErr_Set (ValueError []) st))))
           else Inr (None, PyErr_Set (TypeError ''Not string'') (PyErr_Set (ValueError []) st)))
      | _ \<Rightarrow> Inr (None, PyErr_Set (TypeError ''Not string'') st))"

text \<open>\<^verbatim>\<open>ValueFromObject<char16_t>\<close>, with the same fall-through.\<close>

definition ValueFromObject_char16 :: "pyobj \<Rightarrow> mstate \<Rightarrow> nval option \<times> mstate" where
  "ValueFromObject_char16 object st =
     (case object of
        PyUnicode cs \<Rightarrow>
          (if length cs = 0 then (Some (NChar16 0), st)
           else if length cs = 1 then
             (let buffer = utf8_encode cs;
                  st1 = (if buffer = None then PyErr_Set UnicodeEncodeError st else st);
                  (rc, ch) = mbrtoc16 buffer
              in if rc = 1 \<or> rc = 2 \<or> rc = 3 then (Some (NChar16 ch), st1)
                 else (None, PyErr_Set (TypeError ''Not string'') (PyErr_Set (ValueError []) st1)))
           else (None, PyErr_Set (TypeError ''Not string'') (PyErr_Set (ValueError []) st)))
      | _ \<Rightarrow> (None, PyErr_Set (TypeError ''Not string'') st))"

text \<open>
  \<^verbatim>\<open>PyLong_Check\<close> holds for integers and for booleans (\<^verbatim>\<open>bool\<close> is a subclass
  of \<^verbatim>\<open>int\<close>); \<^verbatim>\<open>long_value\<close> is the integer such an object stands for.
\<close>

definition PyLong_Check :: "pyobj \<Rightarrow> bool" where
  "PyLong_Check object = (case object of PyLong _ \<Rightarrow> True | PyBool _ \<Rightarrow> True | _ \<Rightarrow> False)"

definition long_value :: "pyobj \<Rightarrow> int" where
  "long_value object = (case object of PyLong n \<Rightarrow> n | PyBool b \<Rightarrow> (if b then 1 else 0) | _ \<Rightarrow> 0)"

text \<open>The C API's conversions: the C value returned and the state. A value that does
  not fit returns -1 with \<^verbatim>\<open>OverflowError\<close> set. \<^verbatim>\<open>long\<close> has 32 bits on Windows
  and 64 elsewhere.\<close>

datatype convfn = PyLong_AsLong | PyLong_AsLongLong | PyLong_AsUnsignedLong | PyLong_AsUnsignedLongLong

definition long_bits :: "env \<Rightarrow> nat" where
  "long_bits e = (if windows e then 32 else 64)"

fun ConvertFunc :: "env \<Rightarrow> convfn \<Rightarrow> int \<Rightarrow> mstate \<Rightarrow> int \<times> mstate" where
  "ConvertFunc e PyLong_AsLong n st =
     (if - (2 ^ (long_bits e - 1)) \<le> n \<and> n < 2 ^ (long_bits e - 1) then (n, st)
      else (- 1, PyErr_Set OverflowError st))"
| "ConvertFunc e PyLong_AsLongLong n st =
     (if - (2 ^ 63) \<le> n \<and> n < 2 ^ 63 then (n, st) else (- 1, PyErr_Set OverflowError st))"
| "ConvertFunc e PyLong_AsUnsignedLong n st =
     (if 0 \<le> n \<and> n < 2 ^ long_bits e then (n, st)
      else (2 ^ long_bits e - 1, PyErr_Set OverflowError st))"
| "ConvertFunc e PyLong_AsUnsignedLongLong n st =
     (if 0 \<le> n \<and> n < 2 ^ 64 then (n, st) else (2 ^ 64 - 1, PyErr_Set OverflowError st))"

text \<open>\<^verbatim>\<open>std::numeric_limits<T>::min()\<close> and \<^verbatim>\<open>max()\<close> of the integer types, and
  \<^verbatim>\<open>static_cast<T>\<close> of a C integer.\<close>

fun limits_min :: "ctype \<Rightarrow> int" where
  "limits_min c_int8 = - 128"
| "limits_min c_int16 = - 32768"
| "limits_min c_int32 = - 2147483648"
| "limits_min c_int64 = - 9223372036854775808"
| "limits_min _ = 0"

fun limits_max :: "ctype \<Rightarrow> int" where
  "limits_max c_int8 = 127"
| "limits_max c_int16 = 32767"
| "limits_max c_int32 = 2147483647"
| "limits_max c_int64 = 9223372036854775807"
| "limits_max c_uint8 = 255"
| "limits_max c_uint16 = 65535"
| "limits_max c_uint32 = 4294967295"
| "limits_max c_uint64 = 18446744073709551615"
| "limits_max c_uintptr = 18446744073709551615"
| "limits_max _ = 0"

fun static_cast_int :: "ctype \<Rightarrow> int \<Rightarrow> nval" where
  "static_cast_int c_int8 n = NInt8 (word_of_int n)"
| "static_cast_int c_int16 n = NInt16 (word_of_int n)"
| "static_cast_int c_int32 n = NInt32 (word_of_int n)"
| "static_cast_int c_int64 n = NInt64 (word_of_int n)"
| "static_cast_int c_uint8 n = NUInt8 (word_of_int n)"
| "static_cast_int c_uint16 n = NUInt16 (word_of_int n)"
| "static_cast_int c_uint32 n = NUInt32 (word_of_int n)"
| "static_cast_int c_uint64 n = NUInt64 (word_of_int n)"
| "static_cast_int c_uintptr n = NUIntPtr (word_of_int n)"
| "static_cast_int _ n = NVoid"

text \<open>
  \<^verbatim>\<open>ValueFromNumberObject<ValueType, CType, ConvertFunc>\<close>. Only the in-range case
  returns; after a failed conversion and after \<^verbatim>\<open>PyErr_SetNone(PyExc_OverflowError)\<close>
  control reaches the final \<^verbatim>\<open>PyErr_SetString(PyExc_TypeError, "Not integer")\<close>.
\<close>

definition ValueFromNumberObject ::
  "env \<Rightarrow> ctype \<Rightarrow> convfn \<Rightarrow> pyobj \<Rightarrow> mstate \<Rightarrow> nval option \<times> mstate" where
  "ValueFromNumberObject e T cf object st =
     (if PyLong_Check object then
        (let (castResult, st1) = ConvertFunc e cf (long_value object) st in
         if \<not> PyErr_Occurred st1 then
           (if castResult \<le> limits_max T \<and> castResult \<ge> limits_min T
            then (Some (static_cast_int T castResult), st1)
            else (None, PyErr_Set (TypeError ''Not integer'') (PyErr_Set OverflowError st1)))
         else (None, PyErr_Set (TypeError ''Not integer'') st1))
      else (None, PyErr_Set (TypeError ''Not integer'') st))"

text \<open>\<^verbatim>\<open>ValueFromObject<void*>\<close> over \<^verbatim>\<open>PyLong_AsVoidPtr\<close>, which takes a negative
  integer as a signed and any other as an unsigned 64-bit value.\<close>

definition PyLong_AsVoidPtr :: "int \<Rightarrow> mstate \<Rightarrow> addr \<times> mstate" where
  "PyLong_AsVoidPtr n st =
     (if - (2 ^ 63) \<le> n \<and> n < 2 ^ 64 then (word_of_int n, st)
      else (0, PyErr_Set OverflowError st))"

definition ValueFromObject_voidptr :: "pyobj \<Rightarrow> mstate \<Rightarrow> nval option \<times> mstate" where
  "ValueFromObject_voidptr object st =
     (if PyLong_Check object then
        (let (result, st1) = PyLong_AsVoidPtr (long_value object) st in
         if \<not> PyErr_Occurred st1 then (Some (NVoidPtr result), st1)
         else (None, PyErr_Set (TypeError ''Not integer'') st1))
      else (None, PyErr_Set (TypeError ''Not integer'') st))"

text \<open>\<^verbatim>\<open>ValueFromObject<float>\<close> and \<^verbatim>\<open>ValueFromObject<double>\<close>: only
  \<^verbatim>\<open>PyFloat_Check\<close> decides.\<close>

definition ValueFromObject_float :: "env \<Rightarrow> pyobj \<Rightarrow> mstate \<Rightarrow> nval option \<times> mstate" where
  "ValueFromObject_float e object st =
     (case object of
        PyFloat d \<Rightarrow> (Some (NFloat (d2f e d)), st)
      | _ \<Rightarrow> (None, PyErr_Set (TypeError ''Not float'') st))"

definition ValueFromObject_double :: "pyobj \<Rightarrow> mstate \<Rightarrow> nval option \<times> mstate" where
  "ValueFromObject_double object st =
     (case object of
        PyFloat d \<Rightarrow> (Some (NDouble d), st)
      | _ \<Rightarrow> (None, PyErr_Set (TypeError ''Not float'') st))"

text \<open>\<^verbatim>\<open>ValueFromObject<std::string>\<close>: the result of \<^verbatim>\<open>PyUnicode_AsUTF8AndSize\<close>
  is not tested; on its failure \<^verbatim>\<open>size\<close> keeps its initial 0 and the string built
  from the empty range is empty, with the encoding error left pending.\<close>

definition ValueFromObject_string :: "pyobj \<Rightarrow> mstate \<Rightarrow> nval option \<times> mstate" where
  "ValueFromObject_string object st =
     (case object of
        PyUnicode cs \<Rightarrow>
          (case utf8_encode cs of
             Some bs \<Rightarrow> (Some (NString bs), st)
           | None \<Rightarrow> (Some (NString []), PyErr_Set UnicodeEncodeError st))
      | _ \<Rightarrow> (None, PyErr_Set (TypeError ''Not string'') st))"

text \<open>The geometry extractors. \<^verbatim>\<open>PyObject_IsInstance\<close> compares the class of an
  instance; \<^verbatim>\<open>PyObject_GetAttrString\<close> reads a data attribute.\<close>

definition PyObject_IsInstance :: "pyobj \<Rightarrow> pyclass \<Rightarrow> bool" where
  "PyObject_IsInstance object cls = (case object of PyInstance c _ \<Rightarrow> c = cls | _ \<Rightarrow> False)"

definition PyObject_GetAttrString :: "pyobj \<Rightarrow> string \<Rightarrow> pyobj option" where
  "PyObject_GetAttrString object attr_name =
     (case object of PyInstance _ attrs \<Rightarrow> map_of attrs attr_name | _ \<Rightarrow> None)"

definition GetObjectAttrAsValue_float ::
  "env \<Rightarrow> pyobj \<Rightarrow> string \<Rightarrow> mstate \<Rightarrow> 32 word option \<times> mstate" where
  "GetObjectAttrAsValue_float e object attr_name st =
     (case PyObject_GetAttrString object attr_name of
        None \<Rightarrow> (None, PyErr_Set (AttributeError attr_name) st)
      | Some attrObject \<Rightarrow>
          (case ValueFromObject_float e attrObject st of
             (Some (NFloat f), st1) \<Rightarrow> (Some f, st1)
           | (_, st1) \<Rightarrow> (None, st1)))"

definition Vector2ValueFromObject :: "env \<Rightarrow> pyobj \<Rightarrow> mstate \<Rightarrow> nval option \<times> mstate" where
  "Vector2ValueFromObject e object st =
     (if \<not> PyObject_IsInstance object Vector2Type
      then (None, PyErr_Set (TypeError ''Not Vector2'') st)
      else (case GetObjectAttrAsValue_float e object ''x'' st of
              (None, st1) \<Rightarrow> (None, st1)
            | (Some x, st1) \<Rightarrow>
                (case GetObjectAttrAsValue_float e object ''y'' st1 of
                   (None, st2) \<Rightarrow> (None, st2)
                 | (Some y, st2) \<Rightarrow> (Some (NVector2 x y), st2))))"

definition Vector3ValueFromObject :: "env \<Rightarrow> pyobj \<Rightarrow> mstate \<Rightarrow> nval option \<times> mstate" where
  "Vector3ValueFromObject e object st =
     (if \<not> PyObject_IsInstance object Vector3Type
      then (None, PyErr_Set (TypeError ''Not Vector3'') st)
      else (case GetObjectAttrAsValue_float e object ''x'' st of
              (None, st1) \<Rightarrow> (None, st1)
            | (Some x, st1) \<Rightarrow>
                (case GetObjectAttrAsValue_float e object ''y'' st1 of
                   (None, st2) \<Rightarrow> (None, st2)
                 | (Some y, st2) \<Rightarrow>
                     (case GetObjectAttrAsValue_float e object ''z'' st2 of
                        (None, st3) \<Rightarrow> (None, st3)
                      | (Some z, st3) \<Rightarrow> (Some (NVector3 x y z), st3)))))"

definition Vector4ValueFromObject :: "env \<Rightarrow> pyobj \<Rightarrow> mstate \<Rightarrow> nval option \<times> mstate" where
  "Vector4ValueFromObject e object st =
     (if \<not> PyObject_IsInstance object Vector4Type
      then (None, PyErr_Set (TypeError ''Not Vector4'') st)
      else (case GetObjectAttrAsValue_float e object ''x'' st of
              (None, st1) \<Rightarrow> (None, st1)
            | (Some x, st1) \<Rightarrow>
                (case GetObjectAttrAsValue_float e object ''y'' st1 of
                   (None, st2) \<Rightarrow> (None, st2)
                 | (Some y, st2) \<Rightarrow>
                     (case GetObjectAttrAsValue_float e object ''z'' st2 of
                        (None, st3) \<Rightarrow> (None, st3)
                      | (Some z, st3) \<Rightarrow>
                          (case GetObjectAttrAsValue_float e object ''w'' st3 of
                             (None, st4) \<Rightarrow> (None, st4)
                           | (Some w, st4) \<Rightarrow> (Some (NVector4 x y z w), st4))))))"

text \<open>\<^verbatim>\<open>Matrix4x4ValueFromObject\<close>: the attribute \<^verbatim>\<open>elements\<close> must be exactly a
  list of four lists of four floats each; the loops stop at the first failure.\<close>

fun matrix_row :: "env \<Rightarrow> pyobj list \<Rightarrow> mstate \<Rightarrow> 32 word list option \<times> mstate" where
  "matrix_row e [] st = (Some [], st)"
| "matrix_row e (mObject # rest) st =
     (case ValueFromObject_float e mObject st of
        (Some (NFloat f), st1) \<Rightarrow>
          (case matrix_row e rest st1 of
             (Some fs, st2) \<Rightarrow> (Some (f # fs), st2)
           | (None, st2) \<Rightarrow> (None, st2))
      | (_, st1) \<Rightarrow> (None, st1))"

fun matrix_rows :: "env \<Rightarrow> pyobj list \<Rightarrow> mstate \<Rightarrow> 32 word list option \<times> mstate" where
  "matrix_rows e [] st = (Some [], st)"
| "matrix_rows e (elementsRowListObject # rest) st =
     (case elementsRowListObject of
        PyList True ms \<Rightarrow>
          (if length ms \<noteq> 4 then (None, PyErr_Set (ValueError ''Elements must be a 4x4 list'') st)
           else (case matrix_row e ms st of
                   (None, st1) \<Rightarrow> (None, st1)
                 | (Some fs, st1) \<Rightarrow>
                     (case matrix_rows e rest st1 of
                        (Some gs, st2) \<Rightarrow> (Some (fs @ gs), st2)
                      | (None, st2) \<Rightarrow> (None, st2))))
      | _ \<Rightarrow> (None, PyErr_Set (ValueError ''Elements must be a 4x4 list'') st))"

definition Matrix4x4ValueFromObject :: "env \<Rightarrow> pyobj \<Rightarrow> mstate \<Rightarrow> nval option \<times> mstate" where
  "Matrix4x4ValueFromObject e object st =
     (if \<not> PyObject_IsInstance object Matrix4x4Type
      then (None, PyErr_Set (TypeError ''Not Matrix4x4'') st)
      else (case PyObject_GetAttrString object ''elements'' of
              None \<Rightarrow> (None, PyErr_Set (AttributeError ''elements'') st)
            | Some (PyList True rows) \<Rightarrow>
                (if length rows \<noteq> 4
                 then (None, PyErr_Set (ValueError ''Elements must be a 4x4 list'') st)
                 else (case matrix_rows e rows st of
                         (Some fs, st1) \<Rightarrow> (Some (NMatrix4x4 fs), st1)
                       | (None, st1) \<Rightarrow> (None, st1)))
            | Some _ \<Rightarrow> (None, PyErr_Set (ValueError ''Elements must be a 4x4 list'') st)))"

text \<open>
  The template \<^verbatim>\<open>ValueFromObject<T>\<close> by its type argument. \<^verbatim>\<open>uintptr_t\<close> is the
  type \<^verbatim>\<open>uint64_t\<close> under another name; there is no instance for a vector.
\<close>

fun ValueFromObject :: "env \<Rightarrow> ctype \<Rightarrow> pyobj \<Rightarrow> mstate \<Rightarrow> fault + (nval option \<times> mstate)" where
  "ValueFromObject e c_bool object st = Inr (ValueFromObject_bool object st)"
| "ValueFromObject e c_char object st = ValueFromObject_char object st"
| "ValueFromObject e c_char16 object st = Inr (ValueFromObject_char16 object st)"
| "ValueFromObject e c_int8 object st = Inr (ValueFromNumberObject e c_int8 PyLong_AsLong object st)"
| "ValueFromObject e c_int16 object st = Inr (ValueFromNumberObject e c_int16 PyLong_AsLong object st)"
| "ValueFromObject e c_int32 object st = Inr (ValueFromNumberObject e c_int32 PyLong_AsLong object st)"
| "ValueFromObject e c_int64 object st = Inr (ValueFromNumberObject e c_int64 PyLong_AsLongLong object st)"
| "ValueFromObject e c_uint8 object st = Inr (ValueFromNumberObject e c_uint8 PyLong_AsUnsignedLong object st)"
| "ValueFromObject e c_uint16 object st = Inr (ValueFromNumberObject e c_uint16 PyLong_AsUnsignedLong object st)"
| "ValueFromObject e c_uint32 object st = Inr (ValueFromNumberObject e c_uint32 PyLong_AsUnsignedLong object st)"
| "ValueFromObject e c_uint64 object st =
     Inr (ValueFromNumberObject e c_uint64 PyLong_AsUnsignedLongLong object st)"
| "ValueFromObject e c_uintptr object st =
     Inr (ValueFromNumberObject e c_uintptr PyLong_AsUnsignedLongLong object st)"
| "ValueFromObject e c_voidptr object st = Inr (ValueFromObject_voidptr object st)"
| "ValueFromObject e c_float object st = Inr (ValueFromObject_float e object st)"
| "ValueFromObject e c_double object st = Inr (ValueFromObject_double object st)"
| "ValueFromObject e c_string object st = Inr (ValueFromObject_string object st)"
| "ValueFromObject e c_Vector2 object st = Inr (Vector2ValueFromObject e object st)"
| "ValueFromObject e c_Vector3 object st = Inr (Vector3ValueFromObject e object st)"
| "ValueFromObject e c_Vector4 object st = Inr (Vector4ValueFromObject e object st)"
| "ValueFromObject e c_Matrix4x4 object st = Inr (Matrix4x4ValueFromObject e object st)"
| "ValueFromObject e (c_vector T) object st = Inl BadAccess"

text \<open>\<^verbatim>\<open>ArrayFromObject<T>\<close>: the first element that does not convert ends the
  conversion with no array.\<close>

fun ArrayFromObject_loop ::
  "env \<Rightarrow> ctype \<Rightarrow> pyobj list \<Rightarrow> mstate \<Rightarrow> fault + (nval list option \<times> mstate)" where
  "ArrayFromObject_loop e T [] st = Inr (Some [], st)"
| "ArrayFromObject_loop e T (valueObject # rest) st =
     (case ValueFromObject e T valueObject st of
        Inl f \<Rightarrow> Inl f
      | Inr (None, st1) \<Rightarrow> Inr (None, st1)
      | Inr (Some v, st1) \<Rightarrow>
          (case ArrayFromObject_loop e T rest st1 of
             Inl f \<Rightarrow> Inl f
           | Inr (None, st2) \<Rightarrow> Inr (None, st2)
           | Inr (Some vs, st2) \<Rightarrow> Inr (Some (v # vs), st2)))"

definition ArrayFromObject ::
  "env \<Rightarrow> ctype \<Rightarrow> pyobj \<Rightarrow> mstate \<Rightarrow> fault + (nval option \<times> mstate)" where
  "ArrayFromObject e T arrayObject st =
     (case arrayObject of
        PyList _ items \<Rightarrow>
          (case ArrayFromObject_loop e T items st of
             Inl f \<Rightarrow> Inl f
           | Inr (None, st1) \<Rightarrow> Inr (None, st1)
           | Inr (Some vs, st1) \<Rightarrow> Inr (Some (NVector T vs), st1))
      | _ \<Rightarrow> Inr (None, PyErr_Set (TypeError ''Not list'') st))"

section \<open>The function identity cache\<close>

text \<open>
  \<^verbatim>\<open>_externalMap\<close> and \<^verbatim>\<open>_internalMap\<close> are declared in \<^verbatim>\<open>module.h\<close>; the
  code uses \<^verbatim>\<open>find\<close> and \<^verbatim>\<open>emplace\<close> on them, and \<^verbatim>\<open>emplace\<close> leaves an
  existing key alone. \<^verbatim>\<open>FindInternal\<close> returns the address, null when there is
  none.
\<close>

definition FindExternal :: "mstate \<Rightarrow> addr \<Rightarrow> pyobj option" where
  "FindExternal st funcAddr = externalMap st funcAddr"

definition FindInternal :: "mstate \<Rightarrow> pyobj \<Rightarrow> addr" where
  "FindInternal st object = (case internalMap st object of Some a \<Rightarrow> a | None \<Rightarrow> 0)"

definition emplace :: "('k \<Rightarrow> 'v option) \<Rightarrow> 'k \<Rightarrow> 'v \<Rightarrow> ('k \<Rightarrow> 'v option)" where
  "emplace m k v = (case m k of None \<Rightarrow> m(k \<mapsto> v) | Some _ \<Rightarrow> m)"

definition AddToFunctionsMap :: "addr \<Rightarrow> pyobj \<Rightarrow> mstate \<Rightarrow> mstate" where
  "AddToFunctionsMap funcAddr object st =
     st\<lparr>externalMap := emplace (externalMap st) funcAddr object,
        internalMap := emplace (internalMap st) object funcAddr\<rparr>"

text \<open>\<^verbatim>\<open>Python3LanguageModule::GetOrCreateFunctionObject\<close>: the new wrapper is a
  built-in function object made by \<^verbatim>\<open>PyCFunction_New\<close>.\<close>

definition GetOrCreateFunctionObject ::
  "env \<Rightarrow> Method \<Rightarrow> addr \<Rightarrow> mstate \<Rightarrow> pyobj option \<times> mstate" where
  "GetOrCreateFunctionObject e method funcAddr st =
     (case FindExternal st funcAddr of
        Some object \<Rightarrow> (Some object, st)
      | None \<Rightarrow>
          (let methodAddr = GetJitFunc e method (jitCount st);
               st1 = st\<lparr>jitCount := Suc (jitCount st)\<rparr>
           in if methodAddr = 0 then
                (None, PyErr_Set (RuntimeError
                   ''Lang module JIT failed to generate c++ PyCFunction wrapper'') st1)
              else
                (let object = PyCFunction methodAddr;
                     st2 = st1\<lparr>externalFunctions :=
                              externalFunctions st1 @ [(methodAddr, funcAddr, object)]\<rparr>
                 in (Some object, AddToFunctionsMap funcAddr object st2))))"

definition PyFunction_Check :: "pyobj \<Rightarrow> bool" where
  "PyFunction_Check object = (case object of PyFunction _ \<Rightarrow> True | _ \<Rightarrow> False)"

text \<open>\<^verbatim>\<open>Python3LanguageModule::GetOrCreateFunctionValue\<close>: the type test comes
  before the look-up.\<close>

definition GetOrCreateFunctionValue ::
  "env \<Rightarrow> Method \<Rightarrow> pyobj \<Rightarrow> mstate \<Rightarrow> addr option \<times> mstate" where
  "GetOrCreateFunctionValue e method object st =
     (if object = PyNone then (Some 0, st)
      else if \<not> PyFunction_Check object then (None, PyErr_Set (TypeError ''Not function'') st)
      else if FindInternal st object \<noteq> 0 then (Some (FindInternal st object), st)
      else
        (let funcAddr = GetJitFunc e method (jitCount st);
             st1 = st\<lparr>jitCount := Suc (jitCount st)\<rparr>
         in if funcAddr = 0 then
              (None, PyErr_Set (RuntimeError
                 ''Lang module JIT failed to generate C++ wrapper from function object'') st1)
            else
              (let st2 = st1\<lparr>internalFunctions := internalFunctions st1 @ [(funcAddr, object)]\<rparr>
               in (Some funcAddr, AddToFunctionsMap funcAddr object st2))))"

section \<open>The value marshaler: native value to script value\<close>

definition PyUnicode_FromStringAndSize :: "byte list \<Rightarrow> mstate \<Rightarrow> pyobj option \<times> mstate" where
  "PyUnicode_FromStringAndSize bs st =
     (case utf8_decode bs of
        Some cs \<Rightarrow> (Some (PyUnicode cs), st)
      | None \<Rightarrow> (None, PyErr_Set UnicodeDecodeError st))"

definition PyObject_CallObject_class ::
  "env \<Rightarrow> pyclass \<Rightarrow> pyobj list \<Rightarrow> mstate \<Rightarrow> pyobj option \<times> mstate" where
  "PyObject_CallObject_class e cls argv st =
     (case construct e cls argv of
        Inl exc \<Rightarrow> (None, PyErr_Set exc st)
      | Inr object \<Rightarrow> (Some object, st))"

text \<open>The overloads of \<^verbatim>\<open>CreatePyObject\<close>, by the C++ type of the value. The
  geometry objects are built by calling the script-side class; the matrix passes one
  flat list of its 16 elements.\<close>

fun CreatePyObject :: "env \<Rightarrow> nval \<Rightarrow> mstate \<Rightarrow> pyobj option \<times> mstate" where
  "CreatePyObject e (NBool b) st = (Some (PyBool b), st)"
| "CreatePyObject e (NChar c) st =
     (if c = 0 then (Some (PyUnicode []), st) else PyUnicode_FromStringAndSize [c] st)"
| "CreatePyObject e (NChar16 v) st =
     (if v = 0 then (Some (PyUnicode []), st)
      else (case c16rtomb v of
              None \<Rightarrow> (None, st)
            | Some out \<Rightarrow> PyUnicode_FromStringAndSize out st))"
| "CreatePyObject e (NInt8 w) st = (Some (PyLong (sint w)), st)"
| "CreatePyObject e (NInt16 w) st = (Some (PyLong (sint w)), st)"
| "CreatePyObject e (NInt32 w) st = (Some (PyLong (sint w)), st)"
| "CreatePyObject e (NInt64 w) st = (Some (PyLong (sint w)), st)"
| "CreatePyObject e (NUInt8 w) st = (Some (PyLong (uint w)), st)"
| "CreatePyObject e (NUInt16 w) st = (Some (PyLong (uint w)), st)"
| "CreatePyObject e (NUInt32 w) st = (Some (PyLong (uint w)), st)"
| "CreatePyObject e (NUInt64 w) st = (Some (PyLong (uint w)), st)"
| "CreatePyObject e (NVoidPtr a) st = (Some (PyLong (uint a)), st)"
| "CreatePyObject e (NUIntPtr a) st = (Some (PyLong (uint a)), st)"
| "CreatePyObject e (NFloat f) st = (Some (PyFloat (f2d e f)), st)"
| "CreatePyObject e (NDouble d) st = (Some (PyFloat d), st)"
| "CreatePyObject e (NString bs) st = PyUnicode_FromStringAndSize bs st"
| "CreatePyObject e (NVector2 x y) st =
     PyObject_CallObject_class e Vector2Type [PyFloat (f2d e x), PyFloat (f2d e y)] st"
| "CreatePyObject e (NVector3 x y z) st =
     PyObject_CallObject_class e Vector3Type
       [PyFloat (f2d e x), PyFloat (f2d e y), PyFloat (f2d e z)] st"
| "CreatePyObject e (NVector4 x y z w) st =
     PyObject_CallObject_class e Vector4Type
       [PyFloat (f2d e x), PyFloat (f2d e y), PyFloat (f2d e z), PyFloat (f2d e w)] st"
| "CreatePyObject e (NMatrix4x4 ms) st =
     PyObject_CallObject_class e Matrix4x4Type [PyList True (map (\<lambda>m. PyFloat (f2d e m)) ms)] st"
| "CreatePyObject e (NVector T vs) st = (None, st)"
| "CreatePyObject e NVoid st = (None, st)"
| "CreatePyObject e (NSlotPtr n) st = (None, st)"

text \<open>\<^verbatim>\<open>CreatePyObjectList<T>\<close>: the first element that cannot be created ends the
  loop with no list.\<close>

fun CreatePyObjectList_loop :: "env \<Rightarrow> nval list \<Rightarrow> mstate \<Rightarrow> pyobj list option \<times> mstate" where
  "CreatePyObjectList_loop e [] st = (Some [], st)"
| "CreatePyObjectList_loop e (v # vs) st =
     (case CreatePyObject e v st of
        (None, st1) \<Rightarrow> (None, st1)
      | (Some valueObject, st1) \<Rightarrow>
          (case CreatePyObjectList_loop e vs st1 of
             (None, st2) \<Rightarrow> (None, st2)
           | (Some objs, st2) \<Rightarrow> (Some (valueObject # objs), st2)))"

definition CreatePyObjectList :: "env \<Rightarrow> nval list \<Rightarrow> mstate \<Rightarrow> pyobj option \<times> mstate" where
  "CreatePyObjectList e arrayArg st =
     (case CreatePyObjectList_loop e arrayArg st of
        (None, st1) \<Rightarrow> (None, st1)
      | (Some objs, st1) \<Rightarrow> (Some (PyList True objs), st1))"

section \<open>The native call frame of an inbound call\<close>

text \<open>
  \<^verbatim>\<open>Parameters\<close> and \<^verbatim>\<open>ReturnValue\<close>: the argument slots and the return slot.
  A slot that the caller passes by pointer holds the object pointed to; \<^verbatim>\<open>None\<close> is
  memory that holds no object yet (the target of a hidden return pointer on entry,
  the return slot on entry). \<^verbatim>\<open>GetArgument<T>(index)\<close> on a slot that does not hold
  a \<^verbatim>\<open>T\<close> is undefined behaviour.
\<close>

record frame =
  args :: "nval option list"
  retv :: "nval option"

definition GetArgument :: "frame \<Rightarrow> ctype \<Rightarrow> nat \<Rightarrow> fault + nval" where
  "GetArgument fr T index =
     (if index < length (args fr) then
        (case args fr ! index of
           Some v \<Rightarrow> if ctype_of v = Some T then Inr v else Inl BadAccess
         | None \<Rightarrow> Inl BadAccess)
      else Inl BadAccess)"

definition SetReturnPtr :: "nval \<Rightarrow> frame \<Rightarrow> frame" where
  "SetReturnPtr v fr = fr\<lparr>retv := Some v\<rparr>"

text \<open>\<^verbatim>\<open>std::construct_at(params->GetArgument<T*>(0), value)\<close>.\<close>

definition construct_at_hidden :: "nval \<Rightarrow> frame \<Rightarrow> fault + frame" where
  "construct_at_hidden v fr =
     (if 0 < length (args fr) then Inr (fr\<lparr>args := (args fr)[0 := Some v]\<rparr>) else Inl BadAccess)"

text \<open>\<^verbatim>\<open>*params->GetArgument<T*>(index) = value\<close>.\<close>

definition assign_through :: "ctype \<Rightarrow> nat \<Rightarrow> nval \<Rightarrow> frame \<Rightarrow> fault + frame" where
  "assign_through T index v fr =
     (case GetArgument fr T index of
        Inl f \<Rightarrow> Inl f
      | Inr _ \<Rightarrow> Inr (fr\<lparr>args := (args fr)[index := Some v]\<rparr>))"

section \<open>The switch statements of the inbound direction\<close>

text \<open>
  What a \<^verbatim>\<open>case\<close> of a switch instantiates: a scalar or aggregate conversion
  (\<^verbatim>\<open>ValueFromObject<T>\<close>, \<^verbatim>\<open>CreateValue<T>\<close>, \<^verbatim>\<open>CreatePyObject\<close> of a
  \<^verbatim>\<open>T\<close>), an array conversion (\<^verbatim>\<open>ArrayFromObject<T>\<close>, \<^verbatim>\<open>CreateArray<T>\<close>,
  \<^verbatim>\<open>CreatePyObjectList\<close> of a vector of \<^verbatim>\<open>T\<close>), or the function cache. Each
  table below is one switch, case by case; \<^verbatim>\<open>None\<close> is its \<^verbatim>\<open>default:\<close> branch.
\<close>

datatype conv = Val ctype | Arr ctype | Fn

fun conv_ctype :: "conv \<Rightarrow> ctype" where
  "conv_ctype (Val T) = T"
| "conv_ctype (Arr T) = c_vector T"
| "conv_ctype Fn = c_voidptr"

text \<open>The script-to-native conversion a case calls.\<close>

fun convert ::
  "env \<Rightarrow> conv \<Rightarrow> Method option \<Rightarrow> pyobj \<Rightarrow> mstate \<Rightarrow> fault + (nval option \<times> mstate)" where
  "convert e (Val T) proto object st = ValueFromObject e T object st"
| "convert e (Arr T) proto object st = ArrayFromObject e T object st"
| "convert e Fn proto object st =
     (case proto of
        None \<Rightarrow> Inl NullDeref
      | Some m \<Rightarrow>
          (case GetOrCreateFunctionValue e m object st of
             (None, st1) \<Rightarrow> Inr (None, st1)
           | (Some a, st1) \<Rightarrow> Inr (Some (NVoidPtr a), st1)))"

text \<open>\<^verbatim>\<open>ParamToObject\<close>.\<close>

fun ParamToObject_case :: "ValueType \<Rightarrow> conv option" where
  "ParamToObject_case Bool = Some (Val c_bool)"
| "ParamToObject_case Char8 = Some (Val c_char)"
| "ParamToObject_case Char16 = Some (Val c_char16)"
| "ParamToObject_case Int8 = Some (Val c_int8)"
| "ParamToObject_case Int16 = Some (Val c_int16)"
| "ParamToObject_case Int32 = Some (Val c_int32)"
| "ParamToObject_case Int64 = Some (Val c_int64)"
| "ParamToObject_case UInt8 = Some (Val c_uint8)"
| "ParamToObject_case UInt16 = Some (Val c_uint16)"
| "ParamToObject_case UInt32 = Some (Val c_uint32)"
| "ParamToObject_case UInt64 = Some (Val c_uint64)"
| "ParamToObject_case Pointer = Some (Val c_voidptr)"
| "ParamToObject_case Float = Some (Val c_float)"
| "ParamToObject_case Double = Some (Val c_double)"
| "ParamToObject_case Function = Some Fn"
| "ParamToObject_case String = Some (Val c_string)"
| "ParamToObject_case ArrayBool = Some (Arr c_bool)"
| "ParamToObject_case ArrayChar8 = Some (Arr c_char)"
| "ParamToObject_case ArrayChar16 = Some (Arr c_char16)"
| "ParamToObject_case ArrayInt8 = Some (Arr c_int8)"
| "ParamToObject_case ArrayInt16 = Some (Arr c_int16)"
| "ParamToObject_case ArrayInt32 = Some (Arr c_int32)"
| "ParamToObject_case ArrayInt64 = Some (Arr c_int64)"
| "ParamToObject_case ArrayUInt8 = Some (Arr c_uint8)"
| "ParamToObject_case ArrayUInt16 = Some (Arr c_uint16)"
| "ParamToObject_case ArrayUInt32 = Some (Arr c_uint32)"
| "ParamToObject_case ArrayUInt64 = Some (Arr c_uint64)"
| "ParamToObject_case ArrayPointer = Some (Arr c_voidptr)"
| "ParamToObject_case ArrayFloat = Some (Arr c_float)"
| "ParamToObject_case ArrayDouble = Some (Arr c_double)"
| "ParamToObject_case ArrayString = Some (Arr c_string)"
| "ParamToObject_case Vector2 = Some (Val c_Vector2)"
| "ParamToObject_case Vector3 = Some (Val c_Vector3)"
| "ParamToObject_case Vector4 = Some (Val c_Vector4)"
| "ParamToObject_case Matrix4x4 = Some (Val c_Matrix4x4)"
| "ParamToObject_case Void = None"

text \<open>\<^verbatim>\<open>ParamRefToObject\<close>: as above, without a case for \<^verbatim>\<open>Function\<close>.\<close>

fun ParamRefToObject_case :: "ValueType \<Rightarrow> conv option" where
  "ParamRefToObject_case Function = None"
| "ParamRefToObject_case t = ParamToObject_case t"

text \<open>The native-to-script conversion a case calls: \<^verbatim>\<open>CreatePyObject\<close>,
  \<^verbatim>\<open>CreatePyObjectList\<close> or \<^verbatim>\<open>GetOrCreateFunctionObject\<close>.\<close>

definition to_object ::
  "env \<Rightarrow> conv \<Rightarrow> Method option \<Rightarrow> nval \<Rightarrow> mstate \<Rightarrow> fault + (pyobj option \<times> mstate)" where
  "to_object e cv proto v st =
     (case cv of
        Val T \<Rightarrow> Inr (CreatePyObject e v st)
      | Arr T \<Rightarrow> (case v of NVector _ vs \<Rightarrow> Inr (CreatePyObjectList e vs st)
                   | _ \<Rightarrow> Inl BadAccess)
      | Fn \<Rightarrow>
          (case proto of
             None \<Rightarrow> Inl NullDeref
           | Some m \<Rightarrow>
               (case v of NVoidPtr a \<Rightarrow> Inr (GetOrCreateFunctionObject e m a st)
                | _ \<Rightarrow> Inl BadAccess)))"

text \<open>The same on the slot at \<^verbatim>\<open>index\<close> of the frame.\<close>

definition slot_to_object ::
  "env \<Rightarrow> conv \<Rightarrow> Property \<Rightarrow> frame \<Rightarrow> nat \<Rightarrow> mstate \<Rightarrow> fault + (pyobj option \<times> mstate)" where
  "slot_to_object e cv paramType fr index st =
     (case GetArgument fr (conv_ctype cv) index of
        Inl f \<Rightarrow> Inl f
      | Inr v \<Rightarrow> to_object e cv (prototype paramType) v st)"

definition ParamToObject ::
  "env \<Rightarrow> Property \<Rightarrow> frame \<Rightarrow> nat \<Rightarrow> mstate \<Rightarrow> fault + (pyobj option \<times> mstate)" where
  "ParamToObject e paramType fr index st =
     (case ParamToObject_case (ptype paramType) of
        None \<Rightarrow> Inl Terminate
      | Some cv \<Rightarrow> slot_to_object e cv paramType fr index st)"

definition ParamRefToObject ::
  "env \<Rightarrow> Property \<Rightarrow> frame \<Rightarrow> nat \<Rightarrow> mstate \<Rightarrow> fault + (pyobj option \<times> mstate)" where
  "ParamRefToObject e paramType fr index st =
     (case ParamRefToObject_case (ptype paramType) of
        None \<Rightarrow> Inl Terminate
      | Some cv \<Rightarrow> slot_to_object e cv paramType fr index st)"

text \<open>\<^verbatim>\<open>SetRefParam\<close>: the case for \<^verbatim>\<open>Matrix4x4\<close> calls
  \<^verbatim>\<open>ValueFromObject<Vector2>\<close> and writes through a \<^verbatim>\<open>Vector2*\<close>.\<close>

fun SetRefParam_case :: "ValueType \<Rightarrow> conv option" where
  "SetRefParam_case Bool = Some (Val c_bool)"
| "SetRefParam_case Char8 = Some (Val c_char)"
| "SetRefParam_case Char16 = Some (Val c_char16)"
| "SetRefParam_case Int8 = Some (Val c_int8)"
| "SetRefParam_case Int16 = Some (Val c_int16)"
| "SetRefParam_case Int32 = Some (Val c_int32)"
| "SetRefParam_case Int64 = Some (Val c_int64)"
| "SetRefParam_case UInt8 = Some (Val c_uint8)"
| "SetRefParam_case UInt16 = Some (Val c_uint16)"
| "SetRefParam_case UInt32 = Some (Val c_uint32)"
| "SetRefParam_case UInt64 = Some (Val c_uint64)"
| "SetRefParam_case Pointer = Some (Val c_voidptr)"
| "SetRefParam_case Float = Some (Val c_float)"
| "SetRefParam_case Double = Some (Val c_double)"
| "SetRefParam_case String = Some (Val c_string)"
| "SetRefParam_case ArrayBool = Some (Arr c_bool)"
| "SetRefParam_case ArrayChar8 = Some (Arr c_char)"
| "SetRefParam_case ArrayChar16 = Some (Arr c_char16)"
| "SetRefParam_case ArrayInt8 = Some (Arr c_int8)"
| "SetRefParam_case ArrayInt16 = Some (Arr c_int16)"
| "SetRefParam_case ArrayInt32 = Some (Arr c_int32)"
| "SetRefParam_case ArrayInt64 = Some (Arr c_int64)"
| "SetRefParam_case ArrayUInt8 = Some (Arr c_uint8)"
| "SetRefParam_case ArrayUInt16 = Some (Arr c_uint16)"
| "SetRefParam_case ArrayUInt32 = Some (Arr c_uint32)"
| "SetRefParam_case ArrayUInt64 = Some (Arr c_uint64)"
| "SetRefParam_case ArrayPointer = Some (Arr c_voidptr)"
| "SetRefParam_case ArrayFloat = Some (Arr c_float)"
| "SetRefParam_case ArrayDouble = Some (Arr c_double)"
| "SetRefParam_case ArrayString = Some (Arr c_string)"
| "SetRefParam_case Vector2 = Some (Val c_Vector2)"
| "SetRefParam_case Vector3 = Some (Val c_Vector3)"
| "SetRefParam_case Vector4 = Some (Val c_Vector4)"
| "SetRefParam_case Matrix4x4 = Some (Val c_Vector2)"
| "SetRefParam_case Void = None"
| "SetRefParam_case Function = None"

definition SetRefParam ::
  "env \<Rightarrow> pyobj \<Rightarrow> Property \<Rightarrow> frame \<Rightarrow> nat \<Rightarrow> mstate \<Rightarrow> fault + (bool \<times> frame \<times> mstate)" where
  "SetRefParam e object paramType fr index st =
     (case SetRefParam_case (ptype paramType) of
        None \<Rightarrow> Inl Terminate
      | Some cv \<Rightarrow>
          (case convert e cv (prototype paramType) object st of
             Inl f \<Rightarrow> Inl f
           | Inr (None, st1) \<Rightarrow> Inr (False, fr, st1)
           | Inr (Some v, st1) \<Rightarrow>
               (case assign_through (conv_ctype cv) index v fr of
                  Inl f \<Rightarrow> Inl f
                | Inr fr1 \<Rightarrow> Inr (True, fr1, st1))))"

text \<open>\<^verbatim>\<open>SetReturn\<close>: where the converted value goes. \<^verbatim>\<open>ToRet\<close> is
  \<^verbatim>\<open>ret->SetReturnPtr<T>(value)\<close>, \<^verbatim>\<open>ToHidden\<close> constructs it at the hidden return
  pointer (argument 0), \<^verbatim>\<open>ToHiddenRet\<close> constructs it there and returns that
  pointer. \<^verbatim>\<open>Vector3\<close> and \<^verbatim>\<open>Vector4\<close> depend on the build target.\<close>

datatype dest = ToRet | ToHidden | ToHiddenRet

fun SetReturn_case :: "bool \<Rightarrow> ValueType \<Rightarrow> (conv \<times> dest) option" where
  "SetReturn_case w Void = None"
| "SetReturn_case w Bool = Some (Val c_bool, ToRet)"
| "SetReturn_case w Char8 = Some (Val c_char, ToRet)"
| "SetReturn_case w Char16 = Some (Val c_char16, ToRet)"
| "SetReturn_case w Int8 = Some (Val c_int8, ToRet)"
| "SetReturn_case w Int16 = Some (Val c_int16, ToRet)"
| "SetReturn_case w Int32 = Some (Val c_int32, ToRet)"
| "SetReturn_case w Int64 = Some (Val c_int64, ToRet)"
| "SetReturn_case w UInt8 = Some (Val c_uint8, ToRet)"
| "SetReturn_case w UInt16 = Some (Val c_uint16, ToRet)"
| "SetReturn_case w UInt32 = Some (Val c_uint32, ToRet)"
| "SetReturn_case w UInt64 = Some (Val c_uint64, ToRet)"
| "SetReturn_case w Pointer = Some (Val c_voidptr, ToRet)"
| "SetReturn_case w Float = Some (Val c_float, ToRet)"
| "SetReturn_case w Double = Some (Val c_double, ToRet)"
| "SetReturn_case w Function = Some (Fn, ToRet)"
| "SetReturn_case w String = Some (Val c_string, ToHidden)"
| "SetReturn_case w ArrayBool = Some (Arr c_bool, ToHidden)"
| "SetReturn_case w ArrayChar8 = Some (Arr c_char, ToHidden)"
| "SetReturn_case w ArrayChar16 = Some (Arr c_char16, ToHidden)"
| "SetReturn_case w ArrayInt8 = Some (Arr c_int8, ToHidden)"
| "SetReturn_case w ArrayInt16 = Some (Arr c_int16, ToHidden)"
| "SetReturn_case w ArrayInt32 = Some (Arr c_int32, ToHidden)"
| "SetReturn_case w ArrayInt64 = Some (Arr c_int64, ToHidden)"
| "SetReturn_case w ArrayUInt8 = Some (Arr c_uint8, ToHidden)"
| "SetReturn_case w ArrayUInt16 = Some (Arr c_uint16, ToHidden)"
| "SetReturn_case w ArrayUInt32 = Some (Arr c_uint32, ToHidden)"
| "SetReturn_case w ArrayUInt64 = Some (Arr c_uint64, ToHidden)"
| "SetReturn_case w ArrayPointer = Some (Arr c_voidptr, ToHidden)"
| "SetReturn_case w ArrayFloat = Some (Arr c_float, ToHidden)"
| "SetReturn_case w ArrayDouble = Some (Arr c_double, ToHidden)"
| "SetReturn_case w ArrayString = Some (Arr c_string, ToHidden)"
| "SetReturn_case w Vector2 = Some (Val c_Vector2, ToRet)"
| "SetReturn_case w Vector3 = Some (Val c_Vector3, if w then ToHiddenRet else ToRet)"
| "SetReturn_case w Vector4 = Some (Val c_Vector4, if w then ToHiddenRet else ToRet)"
| "SetReturn_case w Matrix4x4 = Some (Val c_Matrix4x4, ToHiddenRet)"

fun place :: "dest \<Rightarrow> nval \<Rightarrow> frame \<Rightarrow> fault + frame" where
  "place ToRet v fr = Inr (SetReturnPtr v fr)"
| "place ToHidden v fr = construct_at_hidden v fr"
| "place ToHiddenRet v fr =
     (case construct_at_hidden v fr of
        Inl f \<Rightarrow> Inl f
      | Inr fr1 \<Rightarrow> Inr (SetReturnPtr (NSlotPtr 0) fr1))"

definition SetReturn ::
  "env \<Rightarrow> pyobj \<Rightarrow> Property \<Rightarrow> frame \<Rightarrow> mstate \<Rightarrow> fault + (bool \<times> frame \<times> mstate)" where
  "SetReturn e result retProp fr st =
     (case SetReturn_case (windows e) (ptype retProp) of
        None \<Rightarrow> Inr (True, fr, st)
      | Some (cv, d) \<Rightarrow>
          (case convert e cv (prototype retProp) result st of
             Inl f \<Rightarrow> Inl f
           | Inr (None, st1) \<Rightarrow> Inr (False, fr, st1)
           | Inr (Some v, st1) \<Rightarrow>
               (case place d v fr of
                  Inl f \<Rightarrow> Inl f
                | Inr fr1 \<Rightarrow> Inr (True, fr1, st1))))"

text \<open>
  \<^verbatim>\<open>SetFallbackReturn\<close>. The scalar cases fill the eight bytes of the return slot
  with zero; the array cases other than \<^verbatim>\<open>ArrayString\<close> construct an empty
  \<^verbatim>\<open>std::vector<uintptr_t>\<close>. There is no case for \<^verbatim>\<open>ArrayBool\<close>, which reaches
  \<^verbatim>\<open>std::terminate()\<close>.
\<close>

fun SetFallbackReturn :: "env \<Rightarrow> ValueType \<Rightarrow> frame \<Rightarrow> fault + frame" where
  "SetFallbackReturn e Void fr = Inr fr"
| "SetFallbackReturn e Bool fr = Inr (SetReturnPtr (NUIntPtr 0) fr)"
| "SetFallbackReturn e Char8 fr = Inr (SetReturnPtr (NUIntPtr 0) fr)"
| "SetFallbackReturn e Char16 fr = Inr (SetReturnPtr (NUIntPtr 0) fr)"
| "SetFallbackReturn e Int8 fr = Inr (SetReturnPtr (NUIntPtr 0) fr)"
| "SetFallbackReturn e Int16 fr = Inr (SetReturnPtr (NUIntPtr 0) fr)"
| "SetFallbackReturn e Int32 fr = Inr (SetReturnPtr (NUIntPtr 0) fr)"
| "SetFallbackReturn e Int64 fr = Inr (SetReturnPtr (NUIntPtr 0) fr)"
| "SetFallbackReturn e UInt8 fr = Inr (SetReturnPtr (NUIntPtr 0) fr)"
| "SetFallbackReturn e UInt16 fr = Inr (SetReturnPtr (NUIntPtr 0) fr)"
| "SetFallbackReturn e UInt32 fr = Inr (SetReturnPtr (NUIntPtr 0) fr)"
| "SetFallbackReturn e UInt64 fr = Inr (SetReturnPtr (NUIntPtr 0) fr)"
| "SetFallbackReturn e Pointer fr = Inr (SetReturnPtr (NUIntPtr 0) fr)"
| "SetFallbackReturn e Float fr = Inr (SetReturnPtr (NUIntPtr 0) fr)"
| "SetFallbackReturn e Double fr = Inr (SetReturnPtr (NUIntPtr 0) fr)"
| "SetFallbackReturn e String fr = construct_at_hidden (NString []) fr"
| "SetFallbackReturn e Function fr = Inr (SetReturnPtr (NVoidPtr 0) fr)"
| "SetFallbackReturn e ArrayChar8 fr = construct_at_hidden (NVector c_uintptr []) fr"
| "SetFallbackReturn e ArrayChar16 fr = construct_at_hidden (NVector c_uintptr []) fr"
| "SetFallbackReturn e ArrayInt8 fr = construct_at_hidden (NVector c_uintptr []) fr"
| "SetFallbackReturn e ArrayInt16 fr = construct_at_hidden (NVector c_uintptr []) fr"
| "SetFallbackReturn e ArrayInt32 fr = construct_at_hidden (NVector c_uintptr []) fr"
| "SetFallbackReturn e ArrayInt64 fr = construct_at_hidden (NVector c_uintptr []) fr"
| "SetFallbackReturn e ArrayUInt8 fr = construct_at_hidden (NVector c_uintptr []) fr"
| "SetFallbackReturn e ArrayUInt16 fr = construct_at_hidden (NVector c_uintptr []) fr"
| "SetFallbackReturn e ArrayUInt32 fr = construct_at_hidden (NVector c_uintptr []) fr"
| "SetFallbackReturn e ArrayUInt64 fr = construct_at_hidden (NVector c_uintptr []) fr"
| "SetFallbackReturn e ArrayPointer fr = construct_at_hidden (NVector c_uintptr []) fr"
| "SetFallbackReturn e ArrayFloat fr = construct_at_hidden (NVector c_uintptr []) fr"
| "SetFallbackReturn e ArrayDouble fr = construct_at_hidden (NVector c_uintptr []) fr"
| "SetFallbackReturn e ArrayString fr = construct_at_hidden (NVector c_string []) fr"
| "SetFallbackReturn e Vector2 fr = Inr (SetReturnPtr (NVector2 0 0) fr)"
| "SetFallbackReturn e Vector3 fr =
     (if windows e then place ToHiddenRet (NVector3 0 0 0) fr
      else Inr (SetReturnPtr (NVector3 0 0 0) fr))"
| "SetFallbackReturn e Vector4 fr =
     (if windows e then place ToHiddenRet (NVector4 0 0 0 0) fr
      else Inr (SetReturnPtr (NVector4 0 0 0 0) fr))"
| "SetFallbackReturn e Matrix4x4 fr = place ToHiddenRet (NMatrix4x4 (replicate 16 0)) fr"
| "SetFallbackReturn e ArrayBool fr = Inl Terminate"

section \<open>The inbound dispatcher\<close>

definition PyTuple_Check :: "pyobj \<Rightarrow> bool" where
  "PyTuple_Check object = (case object of PyTuple _ _ \<Rightarrow> True | _ \<Rightarrow> False)"

definition PyTuple_CheckExact :: "pyobj \<Rightarrow> bool" where
  "PyTuple_CheckExact object = (case object of PyTuple exact _ \<Rightarrow> exact | _ \<Rightarrow> False)"

definition tuple_items :: "pyobj \<Rightarrow> pyobj list" where
  "tuple_items object = (case object of PyTuple _ items \<Rightarrow> items | _ \<Rightarrow> [])"

definition PyTuple_Size :: "pyobj \<Rightarrow> nat" where
  "PyTuple_Size object = length (tuple_items object)"

text \<open>
  \<^verbatim>\<open>PyObject_CallObject\<close> on a script callable. The runtime checks the outcome of
  every call: a callable that raises gives \<^verbatim>\<open>NULL\<close> with its exception pending, and
  a result that comes with an exception pending is dropped for \<^verbatim>\<open>NULL\<close> and
  \<^verbatim>\<open>SystemError\<close>.
\<close>

definition PyObject_CallObject ::
  "env \<Rightarrow> pyobj \<Rightarrow> pyobj list \<Rightarrow> mstate \<Rightarrow> pyobj option \<times> mstate" where
  "PyObject_CallObject e func argv st =
     (case script e func argv st of
        (Inl exc, st1) \<Rightarrow> (None, PyErr_Set exc st1)
      | (Inr result, st1) \<Rightarrow>
          if PyErr_Occurred st1 then (None, PyErr_Set SystemError st1) else (Some result, st1))"

text \<open>The first loop of \<^verbatim>\<open>InternalCall\<close>: one script argument per parameter, read
  from slot \<^verbatim>\<open>paramsStartIndex + index\<close> (an \<^verbatim>\<open>uint8_t\<close>); the loop ends at the
  first argument that cannot be created.\<close>

fun BuildArgs ::
  "env \<Rightarrow> Property list \<Rightarrow> frame \<Rightarrow> nat \<Rightarrow> mstate \<Rightarrow> fault + (pyobj list option \<times> mstate)" where
  "BuildArgs e [] fr i st = Inr (Some [], st)"
| "BuildArgs e (paramType # rest) fr i st =
     (case (if ref paramType then ParamRefToObject e paramType fr (i mod 256) st
            else ParamToObject e paramType fr (i mod 256) st) of
        Inl f \<Rightarrow> Inl f
      | Inr (None, st1) \<Rightarrow> Inr (None, st1)
      | Inr (Some arg, st1) \<Rightarrow>
          (case BuildArgs e rest fr (Suc i) st1 of
             Inl f \<Rightarrow> Inl f
           | Inr (None, st2) \<Rightarrow> Inr (None, st2)
           | Inr (Some argv, st2) \<Rightarrow> Inr (Some (arg # argv), st2)))"

text \<open>The write-back loop: the k-th reference parameter takes element \<^verbatim>\<open>1 + k\<close> of
  the result tuple; a failed \<^verbatim>\<open>SetRefParam\<close> is printed and the loop goes on.\<close>

fun WriteRefParams ::
  "env \<Rightarrow> Property list \<Rightarrow> pyobj list \<Rightarrow> nat \<Rightarrow> frame \<Rightarrow> nat \<Rightarrow> nat \<Rightarrow> mstate
     \<Rightarrow> fault + (frame \<times> mstate)" where
  "WriteRefParams e [] items refParamsCount fr i k st = Inr (fr, st)"
| "WriteRefParams e (paramType # rest) items refParamsCount fr i k st =
     (if \<not> ref paramType then WriteRefParams e rest items refParamsCount fr (Suc i) k st
      else if length items \<le> 1 + k then Inl BadAccess
      else
        (case SetRefParam e (items ! (1 + k)) paramType fr (i mod 256) st of
           Inl f \<Rightarrow> Inl f
         | Inr (ok, fr1, st1) \<Rightarrow>
             (case (if \<not> ok \<and> PyErr_Occurred st1 then PyErr_Print st1 else Inr st1) of
                Inl f \<Rightarrow> Inl f
              | Inr st2 \<Rightarrow>
                  if Suc k = refParamsCount then Inr (fr1, st2)
                  else WriteRefParams e rest items refParamsCount fr1 (Suc i) (Suc k) st2)))"

text \<open>Every failure exit of \<^verbatim>\<open>InternalCall\<close> prints the pending exception, if
  it has one, and ends in
  \<^verbatim>\<open>SetFallbackReturn(method->retType.type, ret, params); return;\<close>. The argument
  \<^verbatim>\<open>pr\<close> is the outcome of the printing.\<close>

definition fallback_exit ::
  "env \<Rightarrow> ValueType \<Rightarrow> frame \<Rightarrow> fault + mstate \<Rightarrow> fault + (frame \<times> mstate)" where
  "fallback_exit e rt fr pr =
     (case pr of
        Inl f \<Rightarrow> Inl f
      | Inr st \<Rightarrow>
          (case SetFallbackReturn e rt fr of Inl f \<Rightarrow> Inl f | Inr fr1 \<Rightarrow> Inr (fr1, st)))"

definition InternalCall_params :: "Method \<Rightarrow> Property list" where
  "InternalCall_params method = take (length (paramTypes method) mod 256) (paramTypes method)"

definition InternalCall_start :: "env \<Rightarrow> Method \<Rightarrow> nat" where
  "InternalCall_start e method = (if IsHiddenParam e (ptype (retType method)) then 1 else 0)"

definition refParamsCount_of :: "Property list \<Rightarrow> nat" where
  "refParamsCount_of ps = length (filter ref ps)"

text \<open>The part of \<^verbatim>\<open>InternalCall\<close> after a successful call: the shape test of
  the result, the write-back, and the conversion of the return value. The texts of the
  two shape errors are cut at their fixed prefix.\<close>

definition InternalCall_result ::
  "env \<Rightarrow> Method \<Rightarrow> pyobj \<Rightarrow> frame \<Rightarrow> mstate \<Rightarrow> fault + (frame \<times> mstate)" where
  "InternalCall_result e method result fr st =
     (let ps = InternalCall_params method;
          rt = ptype (retType method);
          refParamsCount = refParamsCount_of ps;
          hasRefParams = (refParamsCount \<noteq> 0)
      in if hasRefParams \<and> \<not> PyTuple_CheckExact result then
           fallback_exit e rt fr (PyErr_Print (PyErr_Set (TypeError ''Returned value not tuple'') st))
         else if hasRefParams \<and> PyTuple_Size result \<noteq> 1 + refParamsCount then
           fallback_exit e rt fr (PyErr_Print (PyErr_Set (TypeError ''Returned tuple wrong size'') st))
         else
           (let returnObject = (if hasRefParams then tuple_items result ! 0 else result) in
            case (if hasRefParams
                  then WriteRefParams e ps (tuple_items result) refParamsCount fr
                         (InternalCall_start e method) 0 st
                  else Inr (fr, st)) of
              Inl f \<Rightarrow> Inl f
            | Inr (fr1, st1) \<Rightarrow>
                (case SetReturn e returnObject (retType method) fr1 st1 of
                   Inl f \<Rightarrow> Inl f
                 | Inr (ok, fr2, st2) \<Rightarrow>
                     if ok then Inr (fr2, st2)
                     else fallback_exit e rt fr2
                            (if PyErr_Occurred st2 then PyErr_Print st2 else Inr st2))))"

definition InternalCall ::
  "env \<Rightarrow> Method \<Rightarrow> pyobj \<Rightarrow> frame \<Rightarrow> mstate \<Rightarrow> fault + (frame \<times> mstate)" where
  "InternalCall e method func fr st =
     (case BuildArgs e (InternalCall_params method) fr (InternalCall_start e method) st of
        Inl f \<Rightarrow> Inl f
      | Inr (None, st1) \<Rightarrow>
          fallback_exit e (ptype (retType method)) fr
            (if PyErr_Occurred st1 then PyErr_Print st1 else Inr st1)
      | Inr (Some argv, st1) \<Rightarrow>
          (case PyObject_CallObject e func argv st1 of
             (None, st2) \<Rightarrow> fallback_exit e (ptype (retType method)) fr (PyErr_Print st2)
           | (Some result, st2) \<Rightarrow> InternalCall_result e method result fr st2))"

section \<open>The call argument scope\<close>

text \<open>
  \<^verbatim>\<open>ArgsScope\<close>: the arguments pushed to the call VM, the temporaries with their
  tags (each temporary is the object its pointer points to), and the return type an
  aggregate descriptor was made for. An argument is a value or the address of the
  temporary at an index of \<^verbatim>\<open>storage\<close>.
\<close>

record ArgsScope =
  vm :: "dcarg list"
  storage :: "(nval \<times> ValueType) list"
  ag :: "ValueType option"

definition ArgsScope_new :: ArgsScope where
  "ArgsScope_new = \<lparr>vm = [], storage = [], ag = None\<rparr>"

definition push_value :: "nval \<Rightarrow> ArgsScope \<Rightarrow> ArgsScope" where
  "push_value v a = a\<lparr>vm := vm a @ [DcValue v]\<rparr>"

text \<open>\<^verbatim>\<open>a.storage.emplace_back(value, type); dcArgPointer(a.vm, value);\<close>\<close>

definition push_storage :: "nval \<Rightarrow> ValueType \<Rightarrow> ArgsScope \<Rightarrow> ArgsScope" where
  "push_storage v t a =
     a\<lparr>storage := storage a @ [(v, t)], vm := vm a @ [DcStorage (length (storage a))]\<rparr>"

text \<open>\<^verbatim>\<open>*reinterpret_cast<T*>(std::get<0>(a.storage[index]))\<close>.\<close>

definition storage_get :: "ArgsScope \<Rightarrow> ctype \<Rightarrow> nat \<Rightarrow> fault + nval" where
  "storage_get a T index =
     (if index < length (storage a) then
        (if ctype_of (fst (storage a ! index)) = Some T then Inr (fst (storage a ! index))
         else Inl BadAccess)
      else Inl BadAccess)"

text \<open>The destructor \<^verbatim>\<open>~ArgsScope\<close>: the type each tag is deleted as. The case
  for \<^verbatim>\<open>ArrayInt8\<close> deletes a \<^verbatim>\<open>std::vector<int16_t>\<close>.\<close>

fun ArgsScope_delete_case :: "ValueType \<Rightarrow> ctype option" where
  "ArgsScope_delete_case Bool = Some c_bool"
| "ArgsScope_delete_case Char8 = Some c_char"
| "ArgsScope_delete_case Char16 = Some c_char16"
| "ArgsScope_delete_case Int8 = Some c_int8"
| "ArgsScope_delete_case Int16 = Some c_int16"
| "ArgsScope_delete_case Int32 = Some c_int32"
| "ArgsScope_delete_case Int64 = Some c_int64"
| "ArgsScope_delete_case UInt8 = Some c_uint8"
| "ArgsScope_delete_case UInt16 = Some c_uint16"
| "ArgsScope_delete_case UInt32 = Some c_uint32"
| "ArgsScope_delete_case UInt64 = Some c_uint64"
| "ArgsScope_delete_case Pointer = Some c_uintptr"
| "ArgsScope_delete_case Float = Some c_float"
| "ArgsScope_delete_case Double = Some c_double"
| "ArgsScope_delete_case String = Some c_string"
| "ArgsScope_delete_case ArrayBool = Some (c_vector c_bool)"
| "ArgsScope_delete_case ArrayChar8 = Some (c_vector c_char)"
| "ArgsScope_delete_case ArrayChar16 = Some (c_vector c_char16)"
| "ArgsScope_delete_case ArrayInt8 = Some (c_vector c_int16)"
| "ArgsScope_delete_case ArrayInt16 = Some (c_vector c_int16)"
| "ArgsScope_delete_case ArrayInt32 = Some (c_vector c_int32)"
| "ArgsScope_delete_case ArrayInt64 = Some (c_vector c_int64)"
| "ArgsScope_delete_case ArrayUInt8 = Some (c_vector c_uint8)"
| "ArgsScope_delete_case ArrayUInt16 = Some (c_vector c_uint16)"
| "ArgsScope_delete_case ArrayUInt32 = Some (c_vector c_uint32)"
| "ArgsScope_delete_case ArrayUInt64 = Some (c_vector c_uint64)"
| "ArgsScope_delete_case ArrayPointer = Some (c_vector c_uintptr)"
| "ArgsScope_delete_case ArrayFloat = Some (c_vector c_float)"
| "ArgsScope_delete_case ArrayDouble = Some (c_vector c_double)"
| "ArgsScope_delete_case ArrayString = Some (c_vector c_string)"
| "ArgsScope_delete_case Vector2 = Some c_Vector2"
| "ArgsScope_delete_case Vector3 = Some c_Vector3"
| "ArgsScope_delete_case Vector4 = Some c_Vector4"
| "ArgsScope_delete_case Matrix4x4 = Some c_Matrix4x4"
| "ArgsScope_delete_case Void = None"
| "ArgsScope_delete_case Function = None"

fun ArgsScope_destroy_loop :: "(nval \<times> ValueType) list \<Rightarrow> mstate \<Rightarrow> fault + mstate" where
  "ArgsScope_destroy_loop [] st = Inr st"
| "ArgsScope_destroy_loop ((ptr, t) # rest) st =
     (case ArgsScope_delete_case t of
        None \<Rightarrow> Inl Terminate
      | Some T \<Rightarrow> ArgsScope_destroy_loop rest (st\<lparr>freed := freed st @ [(ptr, T)]\<rparr>))"

definition ArgsScope_destroy :: "ArgsScope \<Rightarrow> mstate \<Rightarrow> fault + mstate" where
  "ArgsScope_destroy a st = ArgsScope_destroy_loop (storage a) st"

section \<open>The switch statements of the outbound direction\<close>

text \<open>\<^verbatim>\<open>BeginExternalCall\<close>: the type of the return temporary made with
  \<^verbatim>\<open>new\<close>, for the return types that get one.\<close>

fun BeginExternalCall_case :: "ValueType \<Rightarrow> ctype option" where
  "BeginExternalCall_case String = Some c_string"
| "BeginExternalCall_case ArrayBool = Some (c_vector c_bool)"
| "BeginExternalCall_case ArrayChar8 = Some (c_vector c_char)"
| "BeginExternalCall_case ArrayChar16 = Some (c_vector c_char16)"
| "BeginExternalCall_case ArrayInt8 = Some (c_vector c_int8)"
| "BeginExternalCall_case ArrayInt16 = Some (c_vector c_int16)"
| "BeginExternalCall_case ArrayInt32 = Some (c_vector c_int32)"
| "BeginExternalCall_case ArrayInt64 = Some (c_vector c_int64)"
| "BeginExternalCall_case ArrayUInt8 = Some (c_vector c_uint8)"
| "BeginExternalCall_case ArrayUInt16 = Some (c_vector c_uint16)"
| "BeginExternalCall_case ArrayUInt32 = Some (c_vector c_uint32)"
| "BeginExternalCall_case ArrayUInt64 = Some (c_vector c_uint64)"
| "BeginExternalCall_case ArrayPointer = Some (c_vector c_uintptr)"
| "BeginExternalCall_case ArrayFloat = Some (c_vector c_float)"
| "BeginExternalCall_case ArrayDouble = Some (c_vector c_double)"
| "BeginExternalCall_case ArrayString = Some (c_vector c_string)"
| "BeginExternalCall_case _ = None"

definition is_aggregate :: "ValueType \<Rightarrow> bool" where
  "is_aggregate t = (t = Vector2 \<or> t = Vector3 \<or> t = Vector4 \<or> t = Matrix4x4)"

text \<open>A default-constructed \<^verbatim>\<open>std::string\<close> or \<^verbatim>\<open>std::vector<T>\<close>.\<close>

fun new_object :: "ctype \<Rightarrow> nval" where
  "new_object (c_vector T) = NVector T []"
| "new_object _ = NString []"

definition BeginExternalCall :: "Method \<Rightarrow> ArgsScope \<Rightarrow> ArgsScope" where
  "BeginExternalCall method a =
     (case BeginExternalCall_case (ptype (retType method)) of
        Some T \<Rightarrow> push_storage (new_object T) (ptype (retType method)) a
      | None \<Rightarrow>
          (if is_aggregate (ptype (retType method)) then a\<lparr>ag := Some (ptype (retType method))\<rparr>
           else a))"

text \<open>\<^verbatim>\<open>PushObjectAsParam\<close>: the conversion, and whether the value goes to a
  temporary whose address is pushed (\<^verbatim>\<open>True\<close>) or is pushed itself.\<close>

fun PushObjectAsParam_case :: "ValueType \<Rightarrow> (conv \<times> bool) option" where
  "PushObjectAsParam_case Bool = Some (Val c_bool, False)"
| "PushObjectAsParam_case Char8 = Some (Val c_char, False)"
| "PushObjectAsParam_case Char16 = Some (Val c_char16, False)"
| "PushObjectAsParam_case Int8 = Some (Val c_int8, False)"
| "PushObjectAsParam_case Int16 = Some (Val c_int16, False)"
| "PushObjectAsParam_case Int32 = Some (Val c_int32, False)"
| "PushObjectAsParam_case Int64 = Some (Val c_int64, False)"
| "PushObjectAsParam_case UInt8 = Some (Val c_uint8, False)"
| "PushObjectAsParam_case UInt16 = Some (Val c_uint16, False)"
| "PushObjectAsParam_case UInt32 = Some (Val c_uint32, False)"
| "PushObjectAsParam_case UInt64 = Some (Val c_uint64, False)"
| "PushObjectAsParam_case Pointer = Some (Val c_uintptr, False)"
| "PushObjectAsParam_case Float = Some (Val c_float, False)"
| "PushObjectAsParam_case Double = Some (Val c_double, False)"
| "PushObjectAsParam_case String = Some (Val c_string, True)"
| "PushObjectAsParam_case Function = Some (Fn, False)"
| "PushObjectAsParam_case ArrayBool = Some (Arr c_bool, True)"
| "PushObjectAsParam_case ArrayChar8 = Some (Arr c_char, True)"
| "PushObjectAsParam_case ArrayChar16 = Some (Arr c_char16, True)"
| "PushObjectAsParam_case ArrayInt8 = Some (Arr c_int8, True)"
| "PushObjectAsParam_case ArrayInt16 = Some (Arr c_int16, True)"
| "PushObjectAsParam_case ArrayInt32 = Some (Arr c_int32, True)"
| "PushObjectAsParam_case ArrayInt64 = Some (Arr c_int64, True)"
| "PushObjectAsParam_case ArrayUInt8 = Some (Arr c_uint8, True)"
| "PushObjectAsParam_case ArrayUInt16 = Some (Arr c_uint16, True)"
| "PushObjectAsParam_case ArrayUInt32 = Some (Arr c_uint32, True)"
| "PushObjectAsParam_case ArrayUInt64 = Some (Arr c_uint64, True)"
| "PushObjectAsParam_case ArrayPointer = Some (Arr c_uintptr, True)"
| "PushObjectAsParam_case ArrayFloat = Some (Arr c_float, True)"
| "PushObjectAsParam_case ArrayDouble = Some (Arr c_double, True)"
| "PushObjectAsParam_case ArrayString = Some (Arr c_string, True)"
| "PushObjectAsParam_case Vector2 = Some (Val c_Vector2, True)"
| "PushObjectAsParam_case Vector3 = Some (Val c_Vector3, True)"
| "PushObjectAsParam_case Vector4 = Some (Val c_Vector4, True)"
| "PushObjectAsParam_case Matrix4x4 = Some (Val c_Matrix4x4, True)"
| "PushObjectAsParam_case Void = None"

definition PushObjectAsParam ::
  "env \<Rightarrow> Property \<Rightarrow> pyobj \<Rightarrow> ArgsScope \<Rightarrow> mstate \<Rightarrow> fault + (bool \<times> ArgsScope \<times> mstate)" where
  "PushObjectAsParam e paramType pItem a st =
     (case PushObjectAsParam_case (ptype paramType) of
        None \<Rightarrow> Inr (False, a, PyErr_Set (TypeError ''Param unsupported type'') st)
      | Some (cv, toStorage) \<Rightarrow>
          (case convert e cv (prototype paramType) pItem st of
             Inl f \<Rightarrow> Inl f
           | Inr (None, st1) \<Rightarrow> Inr (False, a, st1)
           | Inr (Some v, st1) \<Rightarrow>
               Inr (True, if toStorage then push_storage v (ptype paramType) a
                          else push_value v a, st1)))"

text \<open>\<^verbatim>\<open>PushObjectAsRefParam\<close>: every case makes a temporary.\<close>

fun PushObjectAsRefParam_case :: "ValueType \<Rightarrow> conv option" where
  "PushObjectAsRefParam_case Void = None"
| "PushObjectAsRefParam_case Function = None"
| "PushObjectAsRefParam_case t = map_option fst (PushObjectAsParam_case t)"

definition PushObjectAsRefParam ::
  "env \<Rightarrow> Property \<Rightarrow> pyobj \<Rightarrow> ArgsScope \<Rightarrow> mstate \<Rightarrow> fault + (bool \<times> ArgsScope \<times> mstate)" where
  "PushObjectAsRefParam e paramType pItem a st =
     (case PushObjectAsRefParam_case (ptype paramType) of
        None \<Rightarrow> Inr (False, a, PyErr_Set (TypeError ''Param unsupported type'') st)
      | Some cv \<Rightarrow>
          (case convert e cv (prototype paramType) pItem st of
             Inl f \<Rightarrow> Inl f
           | Inr (None, st1) \<Rightarrow> Inr (False, a, st1)
           | Inr (Some v, st1) \<Rightarrow> Inr (True, push_storage v (ptype paramType) a, st1)))"

text \<open>\<^verbatim>\<open>StorageValueToObject\<close>: the type the temporary at \<^verbatim>\<open>index\<close> is read as.\<close>

fun StorageValueToObject_case :: "ValueType \<Rightarrow> conv option" where
  "StorageValueToObject_case Void = None"
| "StorageValueToObject_case Function = None"
| "StorageValueToObject_case t = map_option fst (PushObjectAsParam_case t)"

definition StorageValueToObject ::
  "env \<Rightarrow> Property \<Rightarrow> ArgsScope \<Rightarrow> nat \<Rightarrow> mstate \<Rightarrow> fault + (pyobj option \<times> mstate)" where
  "StorageValueToObject e paramType a index st =
     (case StorageValueToObject_case (ptype paramType) of
        None \<Rightarrow> Inl Terminate
      | Some cv \<Rightarrow>
          (case storage_get a (conv_ctype cv) index of
             Inl f \<Rightarrow> Inl f
           | Inr v \<Rightarrow> to_object e cv (prototype paramType) v st))"

text \<open>
  \<^verbatim>\<open>MakeExternalCall\<close>. The native function gets the pushed arguments and the
  temporaries and leaves a return value and the temporaries as it wrote them. The
  table gives the type the result is read as and whether it is read from the return
  temporary \<^verbatim>\<open>a.storage[0]\<close> (\<^verbatim>\<open>True\<close>) or is the value returned.
\<close>

fun write_back :: "(nval \<times> ValueType) list \<Rightarrow> nval list \<Rightarrow> (nval \<times> ValueType) list" where
  "write_back [] vs = []"
| "write_back ((v, t) # rest) [] = (v, t) # rest"
| "write_back ((v, t) # rest) (v' # vs) = (v', t) # write_back rest vs"

definition dcCall :: "env \<Rightarrow> addr \<Rightarrow> ArgsScope \<Rightarrow> mstate \<Rightarrow> nval \<times> ArgsScope \<times> mstate" where
  "dcCall e addr a st =
     (let (r, vs) = native e addr (vm a) (map fst (storage a))
      in (r, a\<lparr>storage := write_back (storage a) vs\<rparr>, st\<lparr>calls := calls st @ [(addr, vm a)]\<rparr>))"

fun MakeExternalCall_case :: "ValueType \<Rightarrow> (conv \<times> bool) option" where
  "MakeExternalCall_case Void = None"
| "MakeExternalCall_case Function = Some (Fn, False)"
| "MakeExternalCall_case Vector2 = Some (Val c_Vector2, False)"
| "MakeExternalCall_case Vector3 = Some (Val c_Vector3, False)"
| "MakeExternalCall_case Vector4 = Some (Val c_Vector4, False)"
| "MakeExternalCall_case Matrix4x4 = Some (Val c_Matrix4x4, False)"
| "MakeExternalCall_case t = PushObjectAsParam_case t"

definition MakeExternalCall ::
  "env \<Rightarrow> Method \<Rightarrow> addr \<Rightarrow> ArgsScope \<Rightarrow> mstate \<Rightarrow> fault + (pyobj option \<times> ArgsScope \<times> mstate)" where
  "MakeExternalCall e method addr a st =
     (let (r, a1, st1) = dcCall e addr a st in
      case MakeExternalCall_case (ptype (retType method)) of
        None \<Rightarrow> Inr (Some PyNone, a1, st1)
      | Some (cv, fromStorage) \<Rightarrow>
          (case (if fromStorage then storage_get a1 (conv_ctype cv) 0
                 else if ctype_of r = Some (conv_ctype cv) then Inr r else Inl BadAccess) of
             Inl f \<Rightarrow> Inl f
           | Inr v \<Rightarrow>
               (case to_object e cv (prototype (retType method)) v st1 of
                  Inl f \<Rightarrow> Inl f
                | Inr (retObj, st2) \<Rightarrow> Inr (retObj, a1, st2))))"

section \<open>The outbound dispatcher\<close>

text \<open>The argument loop of \<^verbatim>\<open>ExternalCall\<close>: it returns at the first push that
  fails.\<close>

fun PushArgs ::
  "env \<Rightarrow> Property list \<Rightarrow> pyobj list \<Rightarrow> ArgsScope \<Rightarrow> mstate
     \<Rightarrow> fault + (bool \<times> ArgsScope \<times> mstate)" where
  "PushArgs e [] items a st = Inr (True, a, st)"
| "PushArgs e (paramType # rest) [] a st = Inl BadAccess"
| "PushArgs e (paramType # rest) (pItem # items) a st =
     (case (if ref paramType then PushObjectAsRefParam e paramType pItem a st
            else PushObjectAsParam e paramType pItem a st) of
        Inl f \<Rightarrow> Inl f
      | Inr (pushResult, a1, st1) \<Rightarrow>
          if pushResult then PushArgs e rest items a1 st1 else Inr (False, a1, st1))"

text \<open>The loop that reads the reference temporaries back: the k-th reference
  parameter is read from \<^verbatim>\<open>a.storage[j]\<close>, where \<^verbatim>\<open>j\<close> starts at
  \<^verbatim>\<open>paramsStartIndex\<close> and advances by one per reference parameter.\<close>

fun CollectRefs ::
  "env \<Rightarrow> Property list \<Rightarrow> ArgsScope \<Rightarrow> nat \<Rightarrow> nat \<Rightarrow> nat \<Rightarrow> mstate
     \<Rightarrow> fault + (pyobj list option \<times> mstate)" where
  "CollectRefs e [] a refParamsCount j k st = Inr (Some [], st)"
| "CollectRefs e (paramType # rest) a refParamsCount j k st =
     (if \<not> ref paramType then CollectRefs e rest a refParamsCount j k st
      else
        (case StorageValueToObject e paramType a (j mod 256) st of
           Inl f \<Rightarrow> Inl f
         | Inr (None, st1) \<Rightarrow> Inr (None, st1)
         | Inr (Some v, st1) \<Rightarrow>
             (if Suc k \<ge> refParamsCount + 1 then Inr (Some [v], st1)
              else (case CollectRefs e rest a refParamsCount (Suc j) (Suc k) st1 of
                      Inl f \<Rightarrow> Inl f
                    | Inr (None, st2) \<Rightarrow> Inr (None, st2)
                    | Inr (Some vs, st2) \<Rightarrow> Inr (Some (v # vs), st2)))))"

definition ExternalCall_params :: "Method \<Rightarrow> Property list" where
  "ExternalCall_params method = take (length (paramTypes method) mod 256) (paramTypes method)"

text \<open>\<^verbatim>\<open>ExternalCall\<close> between the construction of the scope and its
  destruction: the result handed to \<^verbatim>\<open>ret->SetReturnPtr\<close> (\<^verbatim>\<open>None\<close> is the null
  pointer, on which the script runtime raises the pending exception), the scope and
  the state.\<close>

definition ExternalCall_scoped ::
  "env \<Rightarrow> Method \<Rightarrow> addr \<Rightarrow> pyobj \<Rightarrow> ArgsScope \<Rightarrow> mstate
     \<Rightarrow> fault + (pyobj option \<times> ArgsScope \<times> mstate)" where
  "ExternalCall_scoped e method addr argsObj a st =
     (let ps = ExternalCall_params method;
          refParamsCount = refParamsCount_of ps;
          paramsStartIndex = (if IsObject e (ptype (retType method)) then 1 else 0)
      in case PushArgs e ps (tuple_items argsObj) a st of
           Inl f \<Rightarrow> Inl f
         | Inr (pushResult, a1, st1) \<Rightarrow>
             if \<not> pushResult then Inr (None, a1, st1)
             else
               (case MakeExternalCall e method addr a1 st1 of
                  Inl f \<Rightarrow> Inl f
                | Inr (None, a2, st2) \<Rightarrow> Inr (None, a2, st2)
                | Inr (Some retObj, a2, st2) \<Rightarrow>
                    if refParamsCount \<noteq> 0 then
                      (case CollectRefs e ps a2 refParamsCount paramsStartIndex 1 st2 of
                         Inl f \<Rightarrow> Inl f
                       | Inr (None, st3) \<Rightarrow> Inr (None, a2, st3)
                       | Inr (Some vs, st3) \<Rightarrow> Inr (Some (PyTuple True (retObj # vs)), a2, st3))
                    else Inr (Some retObj, a2, st2)))"

text \<open>\<^verbatim>\<open>ExternalCall\<close>: the two tests on the argument tuple come before the scope
  is made; the scope is destroyed on every return after that. The texts of the two
  errors are cut at their fixed part.\<close>

definition ExternalCall ::
  "env \<Rightarrow> Method \<Rightarrow> addr \<Rightarrow> pyobj \<Rightarrow> mstate \<Rightarrow> fault + (pyobj option \<times> mstate)" where
  "ExternalCall e method addr argsObj st =
     (if \<not> PyTuple_Check argsObj then
        Inr (None, PyErr_Set (TypeError ''Function expects a tuple of arguments'') st)
      else if PyTuple_Size argsObj \<noteq> length (paramTypes method) mod 256 then
        Inr (None, PyErr_Set (TypeError ''Wrong number of parameters'') st)
      else
        (case ExternalCall_scoped e method addr argsObj
                (BeginExternalCall method ArgsScope_new) st of
           Inl f \<Rightarrow> Inl f
         | Inr (r, a1, st1) \<Rightarrow>
             (case ArgsScope_destroy a1 st1 of
                Inl f \<Rightarrow> Inl f
              | Inr st2 \<Rightarrow> Inr (r, st2))))"

text \<open>\<^verbatim>\<open>ExternalCallNoArgs\<close>, the dispatcher of a method without parameters.\<close>

definition ExternalCallNoArgs ::
  "env \<Rightarrow> Method \<Rightarrow> addr \<Rightarrow> mstate \<Rightarrow> fault + (pyobj option \<times> mstate)" where
  "ExternalCallNoArgs e method addr st =
     (case MakeExternalCall e method addr (BeginExternalCall method ArgsScope_new) st of
        Inl f \<Rightarrow> Inl f
      | Inr (r, a1, st1) \<Rightarrow>
          (case ArgsScope_destroy a1 st1 of
             Inl f \<Rightarrow> Inl f
           | Inr st2 \<Rightarrow> Inr (r, st2)))"

section \<open>What the native caller finds in the return slot\<close>


definition is_array :: "ValueType \<Rightarrow> bool" where
  "is_array t = (t \<in> {ArrayBool, ArrayChar8, ArrayChar16, ArrayInt8, ArrayInt16, ArrayInt32,
     ArrayInt64, ArrayUInt8, ArrayUInt16, ArrayUInt32, ArrayUInt64, ArrayPointer, ArrayFloat,
     ArrayDouble, ArrayString})"

text \<open>The return types whose value the native caller reads at the hidden return
  pointer it passed as argument 0: strings, arrays, the matrix and, on Windows, the
  3- and 4-component vectors. The others are read from the return slot.\<close>

definition uses_hidden :: "bool \<Rightarrow> ValueType \<Rightarrow> bool" where
  "uses_hidden w t = (t = String \<or> is_array t \<or> t = Matrix4x4 \<or> (w \<and> (t = Vector3 \<or> t = Vector4)))"





text \<open>The steps of an inbound call that can fail with a fallback: building the script
  arguments, the call of the script callable, the shape of its result when there are
  reference parameters, and the conversion of the return value. A step fails when the
  code that carries it out reports so: no argument object, no result object, a result
  that is not a tuple of the right size, \<^verbatim>\<open>SetReturn\<close> returning false.\<close>

datatype step = ArgumentConversion | ScriptInvocation | ResultShape | ReturnConversion

definition shape_ok :: "Method \<Rightarrow> pyobj \<Rightarrow> bool" where
  "shape_ok method result =
     (refParamsCount_of (InternalCall_params method) = 0 \<or>
      (PyTuple_CheckExact result \<and>
       PyTuple_Size result = 1 + refParamsCount_of (InternalCall_params method)))"

definition return_conversion_fails ::
  "env \<Rightarrow> Method \<Rightarrow> pyobj \<Rightarrow> frame \<Rightarrow> mstate \<Rightarrow> bool" where
  "return_conversion_fails e method result fr st =
     (case (if refParamsCount_of (InternalCall_params method) \<noteq> 0
            then WriteRefParams e (InternalCall_params method) (tuple_items result)
                   (refParamsCount_of (InternalCall_params method)) fr
                   (InternalCall_start e method) 0 st
            else Inr (fr, st)) of
        Inl f \<Rightarrow> False
      | Inr (fr1, st1) \<Rightarrow>
          (case SetReturn e
                  (if refParamsCount_of (InternalCall_params method) \<noteq> 0
                   then tuple_items result ! 0 else result)
                  (retType method) fr1 st1 of
             Inl f \<Rightarrow> False
           | Inr (ok, fr2, st2) \<Rightarrow> \<not> ok))"

definition step_fails :: "env \<Rightarrow> Method \<Rightarrow> pyobj \<Rightarrow> frame \<Rightarrow> mstate \<Rightarrow> step \<Rightarrow> bool" where
  "step_fails e method func fr st s =
     (case BuildArgs e (InternalCall_params method) fr (InternalCall_start e method) st of
        Inl f \<Rightarrow> False
      | Inr (None, st1) \<Rightarrow> s = ArgumentConversion
      | Inr (Some argv, st1) \<Rightarrow>
          (case PyObject_CallObject e func argv st1 of
             (None, st2) \<Rightarrow> s = ScriptInvocation
           | (Some result, st2) \<Rightarrow>
               if shape_ok method result
               then s = ReturnConversion \<and> return_conversion_fails e method result fr st2
               else s = ResultShape))"















section \<open>An example environment\<close>

text \<open>
  A Linux build target. The geometry classes store what they are constructed from
  under the attribute names the extractors read (the matrix class turns the flat list
  into four rows). The two float conversions act on bit patterns only; no example
  below converts a float. Script callables, native functions and the JIT are set per
  example.
\<close>

definition construct0 :: "pyclass \<Rightarrow> pyobj list \<Rightarrow> pyexc + pyobj" where
  "construct0 cls argv =
     (case (cls, argv) of
        (Vector2Type, [x, y]) \<Rightarrow> Inr (PyInstance Vector2Type [(''x'', x), (''y'', y)])
      | (Vector3Type, [x, y, z]) \<Rightarrow> Inr (PyInstance Vector3Type [(''x'', x), (''y'', y), (''z'', z)])
      | (Vector4Type, [x, y, z, w]) \<Rightarrow>
          Inr (PyInstance Vector4Type [(''x'', x), (''y'', y), (''z'', z), (''w'', w)])
      | (Matrix4x4Type, [PyList _ ms]) \<Rightarrow>
          Inr (PyInstance Matrix4x4Type
                 [(''elements'', PyList True
                     [PyList True (take 4 ms), PyList True (take 4 (drop 4 ms)),
                      PyList True (take 4 (drop 8 ms)), PyList True (take 4 (drop 12 ms))])])
      | _ \<Rightarrow> Inl (TypeError ''constructor arguments''))"

definition IsObject0 :: "ValueType \<Rightarrow> bool" where
  "IsObject0 t = (t = String \<or> is_array t)"

definition env0 :: env where
  "env0 = \<lparr>windows = False,
           d2f = (\<lambda>d. ucast (drop_bit 32 d)),
           f2d = (\<lambda>f. push_bit 32 (ucast f)),
           construct = construct0,
           script = (\<lambda>func argv st. (Inr PyNone, st)),
           GetJitFunc = (\<lambda>method n. 4096 + 16 * of_nat n),
           native = (\<lambda>addr argv vs. (NVoid, vs)),
           IsObject = IsObject0,
           IsHiddenParam = uses_hidden False\<rparr>"

definition st0 :: mstate where
  "st0 = \<lparr>err = None, printed = [], externalMap = Map.empty, internalMap = Map.empty,
          internalFunctions = [], externalFunctions = [], jitCount = 0, calls = [],
          freed = []\<rparr>"

section \<open>Names used in the statements below\<close>

text \<open>\<^verbatim>\<open>PyFloat_Check\<close>: the test of \<^verbatim>\<open>ValueFromObject<float>\<close> and
  \<^verbatim>\<open>ValueFromObject<double>\<close>. It holds for the objects the model writes
  \<^verbatim>\<open>PyFloat\<close>: floats, of the type \<^verbatim>\<open>float\<close> or of a subtype of it.\<close>

definition PyFloat_Check :: "pyobj \<Rightarrow> bool" where
  "PyFloat_Check object = (case object of PyFloat _ \<Rightarrow> True | _ \<Rightarrow> False)"

text \<open>A frame with no argument slot and an unwritten return slot.\<close>

definition fr0 :: frame where
  "fr0 = \<lparr>args = [], retv = None\<rparr>"

text \<open>A script object of the matrix class whose 16 elements are the float 0, and a
  native matrix whose 16 elements have the bit pattern 1.\<close>

definition matrixObject0 :: pyobj where
  "matrixObject0 =
     PyInstance Matrix4x4Type
       [(''elements'', PyList True (replicate 4 (PyList True (replicate 4 (PyFloat 0)))))]"

definition frM :: frame where
  "frM = \<lparr>args = [Some (NMatrix4x4 (replicate 16 1))], retv = None\<rparr>"

text \<open>An inbound method \<^verbatim>\<open>(Matrix4x4 ref) -> Void\<close> whose script callable returns
  \<^verbatim>\<open>(None, matrixObject0)\<close>.\<close>

definition methodM :: Method where
  "methodM = Method [] [Property Matrix4x4 True None] (Property Void False None)"

definition envM :: env where
  "envM = env0\<lparr>script := (\<lambda>func argv st. (Inr (PyTuple True [PyNone, matrixObject0]), st))\<rparr>"

text \<open>An inbound method \<^verbatim>\<open>(Int32 ref) -> ArrayBool\<close> whose script callable returns
  the integer 1, and its frame: the hidden return pointer and the referenced
  \<^verbatim>\<open>int32_t\<close>.\<close>

definition methodB :: Method where
  "methodB = Method [] [Property Int32 True None] (Property ArrayBool False None)"

definition envB :: env where
  "envB = env0\<lparr>script := (\<lambda>func argv st. (Inr (PyLong 1), st))\<rparr>"

definition frB :: frame where
  "frB = \<lparr>args = [None, Some (NInt32 5)], retv = None\<rparr>"

text \<open>An inbound method \<^verbatim>\<open>(Int32 ref, Int32 ref) -> Int32\<close> whose script callable
  returns a tuple of two elements.\<close>

definition methodR2 :: Method where
  "methodR2 = Method [] [Property Int32 True None, Property Int32 True None]
                (Property Int32 False None)"

definition envR2 :: env where
  "envR2 = env0\<lparr>script := (\<lambda>func argv st. (Inr (PyTuple True [PyLong 1, PyLong 2]), st))\<rparr>"

definition frR2 :: frame where
  "frR2 = \<lparr>args = [Some (NInt32 5), Some (NInt32 6)], retv = None\<rparr>"

text \<open>An outbound method \<^verbatim>\<open>(String, String ref) -> Void\<close> over a native function
  that stores the bytes of "new" in the string its second argument points to (the
  temporary at index 1).\<close>

definition methodS :: Method where
  "methodS = Method [] [Property String False None, Property String True None]
               (Property Void False None)"

definition envS :: env where
  "envS = env0\<lparr>native := (\<lambda>addr argv vs. (NVoid, vs[1 := NString [110, 101, 119]]))\<rparr>"

definition argsS :: pyobj where
  "argsS = PyTuple True [PyUnicode [105, 110], PyUnicode [111, 108, 100]]"

text \<open>An outbound method \<^verbatim>\<open>(ArrayInt8) -> Void\<close>.\<close>

definition methodA8 :: Method where
  "methodA8 = Method [] [Property ArrayInt8 False None] (Property Void False None)"

text \<open>A method \<^verbatim>\<open>() -> Void\<close>, the prototype of a function-typed value.\<close>

definition methodV :: Method where
  "methodV = Method [] [] (Property Void False None)"

text \<open>The cache after \<^verbatim>\<open>GetOrCreateFunctionObject\<close> wrapped the native address
  4660 (the JIT gave the wrapper the entry point 4096), and after
  \<^verbatim>\<open>GetOrCreateFunctionValue\<close> wrapped the script function number 7.\<close>

definition stW :: mstate where
  "stW = st0\<lparr>externalMap := [4660 \<mapsto> PyCFunction 4096],
             internalMap := [PyCFunction 4096 \<mapsto> 4660],
             externalFunctions := [(4096, 4660, PyCFunction 4096)],
             jitCount := 1\<rparr>"

definition stF :: mstate where
  "stF = st0\<lparr>externalMap := [4096 \<mapsto> PyFunction 7],
             internalMap := [PyFunction 7 \<mapsto> 4096],
             internalFunctions := [(4096, PyFunction 7)],
             jitCount := 1\<rparr>"




text \<open>What every script-to-native conversion keeps: it makes no native call, and when
  it gives no value it leaves a script error pending.\<close>

definition conv_post :: "mstate \<Rightarrow> 'a option \<Rightarrow> mstate \<Rightarrow> bool" where
  "conv_post st r st1 = (calls st1 = calls st \<and> (r = None \<longrightarrow> err st1 \<noteq> None))"

text \<open>Every tag in the scope has a case in the destructor.\<close>

definition deletable :: "ArgsScope \<Rightarrow> bool" where
  "deletable a = list_all (\<lambda>(v, t). ArgsScope_delete_case t \<noteq> None) (storage a)"

text \<open>The argument loop of \<^verbatim>\<open>ExternalCall\<close> ends at a push that reports
  failure.\<close>

definition push_fails :: "env \<Rightarrow> Method \<Rightarrow> pyobj \<Rightarrow> mstate \<Rightarrow> bool" where
  "push_fails e method argsObj st =
     (case PushArgs e (ExternalCall_params method) (tuple_items argsObj)
             (BeginExternalCall method ArgsScope_new) st of
        Inl f \<Rightarrow> False
      | Inr (pushResult, a1, st1) \<Rightarrow> \<not> pushResult)"

text \<open>An outbound method \<^verbatim>\<open>(Int32) -> Void\<close>.\<close>

definition methodI :: Method where
  "methodI = Method [] [Property Int32 False None] (Property Void False None)"

text \<open>An outbound method \<^verbatim>\<open>(String) -> Void\<close>.\<close>

definition methodT :: Method where
  "methodT = Method [] [Property String False None] (Property Void False None)"




section \<open>Float and Double slots\<close>

lemma ValueFromObject_float_reject:
  "\<not> PyFloat_Check v \<Longrightarrow>
   ValueFromObject_float e v st = (None, PyErr_Set (TypeError ''Not float'') st)"
  by (cases v) (simp_all add: ValueFromObject_float_def PyFloat_Check_def)

lemma ValueFromObject_double_reject:
  "\<not> PyFloat_Check v \<Longrightarrow>
   ValueFromObject_double v st = (None, PyErr_Set (TypeError ''Not float'') st)"
  by (cases v) (simp_all add: ValueFromObject_double_def PyFloat_Check_def)

text \<open>
  C10. For a value declared \<^verbatim>\<open>Float\<close> or \<^verbatim>\<open>Double\<close>, a script float converts,
  and any other script value (an integer among them) is rejected with the type error
  "Not float" and without conversion: by the marshaler itself, as a return value
  (\<^verbatim>\<open>SetReturn\<close>, which leaves the frame as it was), as a written-back reference
  parameter (\<^verbatim>\<open>SetRefParam\<close>), and as an outbound argument by value or by
  reference (nothing is pushed).
\<close>

theorem float_slots_take_float_objects_only:
  assumes "t = Float \<or> t = Double"
  shows "(PyFloat_Check v \<longrightarrow>
            (\<exists>x. ValueFromObject e (if t = Float then c_float else c_double) v st = Inr (Some x, st)))
       \<and> (\<not> PyFloat_Check v \<longrightarrow>
            ValueFromObject e (if t = Float then c_float else c_double) v st
              = Inr (None, PyErr_Set (TypeError ''Not float'') st)
          \<and> SetReturn e v (Property t r p) fr st
              = Inr (False, fr, PyErr_Set (TypeError ''Not float'') st)
          \<and> SetRefParam e v (Property t r p) fr i st
              = Inr (False, fr, PyErr_Set (TypeError ''Not float'') st)
          \<and> PushObjectAsParam e (Property t r p) v a st
              = Inr (False, a, PyErr_Set (TypeError ''Not float'') st)
          \<and> PushObjectAsRefParam e (Property t r p) v a st
              = Inr (False, a, PyErr_Set (TypeError ''Not float'') st))"
proof (intro conjI impI)
  assume "PyFloat_Check v"
  then obtain d where "v = PyFloat d"
    by (cases v) (simp_all add: PyFloat_Check_def)
  then show "\<exists>x. ValueFromObject e (if t = Float then c_float else c_double) v st = Inr (Some x, st)"
    using assms by (auto simp: ValueFromObject_float_def ValueFromObject_double_def)
next
  assume nf: "\<not> PyFloat_Check v"
  show "ValueFromObject e (if t = Float then c_float else c_double) v st
          = Inr (None, PyErr_Set (TypeError ''Not float'') st)"
    using assms nf by (auto simp: ValueFromObject_float_reject ValueFromObject_double_reject)
  show "SetReturn e v (Property t r p) fr st
          = Inr (False, fr, PyErr_Set (TypeError ''Not float'') st)"
    using assms nf
    by (auto simp: SetReturn_def ValueFromObject_float_reject ValueFromObject_double_reject)
  show "SetRefParam e v (Property t r p) fr i st
          = Inr (False, fr, PyErr_Set (TypeError ''Not float'') st)"
    using assms nf
    by (auto simp: SetRefParam_def ValueFromObject_float_reject ValueFromObject_double_reject)
  show "PushObjectAsParam e (Property t r p) v a st
          = Inr (False, a, PyErr_Set (TypeError ''Not float'') st)"
    using assms nf
    by (auto simp: PushObjectAsParam_def ValueFromObject_float_reject ValueFromObject_double_reject)
  show "PushObjectAsRefParam e (Property t r p) v a st
          = Inr (False, a, PyErr_Set (TypeError ''Not float'') st)"
    using assms nf
    by (auto simp: PushObjectAsRefParam_def ValueFromObject_float_reject
        ValueFromObject_double_reject)
qed

theorem float_slots_witness:
  "\<not> PyFloat_Check (PyLong 3)
   \<and> ValueFromObject env0 c_float (PyLong 3) st0 = Inr (None, PyErr_Set (TypeError ''Not float'') st0)
   \<and> SetReturn env0 (PyLong 3) (Property Float False None) fr0 st0
        = Inr (False, fr0, PyErr_Set (TypeError ''Not float'') st0)
   \<and> PyFloat_Check (PyFloat 0)
   \<and> (\<exists>x. ValueFromObject env0 c_double (PyFloat 0) st0 = Inr (Some x, st0))"
  using float_slots_take_float_objects_only [of Float "PyLong 3" env0 st0 False None fr0]
        float_slots_take_float_objects_only [of Double "PyFloat 0" env0 st0 False None fr0]
  by (simp add: PyFloat_Check_def)

section \<open>Evaluating the model\<close>

lemmas marshal_defs =
  PyErr_Set_def PyErr_Occurred_def PyErr_Print_def
  ValueFromObject_bool_def ValueFromObject_char_def ValueFromObject_char16_def
  ValueFromNumberObject_def ValueFromObject_voidptr_def ValueFromObject_float_def
  ValueFromObject_double_def ValueFromObject_string_def
  Vector2ValueFromObject_def Vector3ValueFromObject_def Vector4ValueFromObject_def
  Matrix4x4ValueFromObject_def GetObjectAttrAsValue_float_def PyObject_IsInstance_def
  PyObject_GetAttrString_def ArrayFromObject_def PyLong_Check_def long_value_def
  long_bits_def PyLong_AsVoidPtr_def
  CreatePyObjectList_def PyObject_CallObject_class_def PyUnicode_FromStringAndSize_def
  GetOrCreateFunctionObject_def GetOrCreateFunctionValue_def FindExternal_def FindInternal_def
  AddToFunctionsMap_def emplace_def PyFunction_Check_def
  utf8_encode_cp_def utf8_decode_def is_cont_def mbrtoc16_def c16rtomb_def

lemmas inbound_defs =
  InternalCall_def InternalCall_result_def InternalCall_params_def InternalCall_start_def
  refParamsCount_of_def fallback_exit_def PyObject_CallObject_def
  ParamToObject_def ParamRefToObject_def slot_to_object_def to_object_def GetArgument_def
  SetRefParam_def SetReturn_def assign_through_def construct_at_hidden_def SetReturnPtr_def
  PyTuple_Check_def PyTuple_CheckExact_def PyTuple_Size_def tuple_items_def
  uses_hidden_def is_array_def

lemmas outbound_defs =
  ExternalCall_def ExternalCall_scoped_def ExternalCall_params_def refParamsCount_of_def
  BeginExternalCall_def ArgsScope_new_def push_value_def push_storage_def storage_get_def
  ArgsScope_destroy_def PushObjectAsParam_def PushObjectAsRefParam_def
  StorageValueToObject_def MakeExternalCall_def dcCall_def to_object_def is_aggregate_def
  PyTuple_Check_def PyTuple_Size_def tuple_items_def IsObject0_def is_array_def

section \<open>Integer ranges\<close>

text \<open>For every integer width, a script integer outside the range of the width is
  rejected (nothing is converted), and the error left pending is the type error
  "Not integer": the overflow error that the conversion function or the range test
  set is overwritten.\<close>

lemma integer_out_of_range_is_rejected:
  assumes "T \<in> {c_int8, c_int16, c_int32, c_int64, c_uint8, c_uint16, c_uint32, c_uint64}"
      and "n < limits_min T \<or> limits_max T < n"
  shows "ValueFromObject e T (PyLong n) st
           = Inr (None, st\<lparr>err := Some (TypeError ''Not integer'')\<rparr>)"
  using assms
  by (auto simp: ValueFromNumberObject_def PyLong_Check_def long_value_def long_bits_def
      PyErr_Set_def PyErr_Occurred_def)

text \<open>
  C4 (the code at the failing input). The script integer \<open>2^63\<close> for an
  \<^verbatim>\<open>Int32\<close> slot: the conversion gives no value and \<^verbatim>\<open>SetReturn\<close> leaves the
  frame untouched, but the pending error is the type error "Not integer", not an
  overflow error; the same for \<open>2^31\<close>, which fits a \<^verbatim>\<open>long\<close> and fails the code's
  own range test.
\<close>

theorem int32_range_failure_is_type_error:
  "ValueFromObject env0 c_int32 (PyLong (2 ^ 63)) st0
     = Inr (None, st0\<lparr>err := Some (TypeError ''Not integer'')\<rparr>)
   \<and> ValueFromObject env0 c_int32 (PyLong (2 ^ 31)) st0
     = Inr (None, st0\<lparr>err := Some (TypeError ''Not integer'')\<rparr>)
   \<and> SetReturn env0 (PyLong (2 ^ 63)) (Property Int32 False None) fr0 st0
     = Inr (False, fr0, st0\<lparr>err := Some (TypeError ''Not integer'')\<rparr>)"
  by (simp add: marshal_defs inbound_defs env0_def st0_def fr0_def)

section \<open>Single characters\<close>

text \<open>A string of more than one character is rejected for both character types,
  with the type error "Not string" left pending.\<close>

lemma long_string_is_type_error:
  assumes "1 < length cs"
  shows "ValueFromObject e c_char (PyUnicode cs) st
           = Inr (None, st\<lparr>err := Some (TypeError ''Not string'')\<rparr>)
       \<and> ValueFromObject e c_char16 (PyUnicode cs) st
           = Inr (None, st\<lparr>err := Some (TypeError ''Not string'')\<rparr>)"
  using assms by (auto simp: ValueFromObject_char_def ValueFromObject_char16_def PyErr_Set_def)

text \<open>
  C8 (the code at the failing input). The empty string gives the zero character and
  "A" gives 65. "AB" for a \<^verbatim>\<open>Char8\<close> and a lone surrogate for a \<^verbatim>\<open>Char16\<close> give
  no value, but the error left pending is the type error "Not string": the
  \<^verbatim>\<open>ValueError\<close> set first is overwritten. The string of length 1 that holds
  U+0000 is rejected for a \<^verbatim>\<open>Char16\<close>, and a lone surrogate for a \<^verbatim>\<open>Char8\<close>
  dereferences a null pointer.
\<close>

theorem char_failure_is_type_error:
  "ValueFromObject env0 c_char (PyUnicode []) st0 = Inr (Some (NChar 0), st0)
   \<and> ValueFromObject env0 c_char (PyUnicode [65]) st0 = Inr (Some (NChar 65), st0)
   \<and> ValueFromObject env0 c_char (PyUnicode [65, 66]) st0
     = Inr (None, st0\<lparr>err := Some (TypeError ''Not string'')\<rparr>)
   \<and> ValueFromObject env0 c_char16 (PyUnicode [55296]) st0
     = Inr (None, st0\<lparr>err := Some (TypeError ''Not string'')\<rparr>)
   \<and> ValueFromObject env0 c_char16 (PyUnicode [0]) st0
     = Inr (None, st0\<lparr>err := Some (TypeError ''Not string'')\<rparr>)
   \<and> ValueFromObject env0 c_char (PyUnicode [55296]) st0 = Inl NullDeref"
  by (simp add: marshal_defs st0_def)

section \<open>The destructor of the call scope\<close>

text \<open>Every tag but \<^verbatim>\<open>ArrayInt8\<close> is deleted as the type its temporary was
  allocated with, by \<^verbatim>\<open>PushObjectAsRefParam\<close>, \<^verbatim>\<open>PushObjectAsParam\<close> and
  \<^verbatim>\<open>BeginExternalCall\<close>.\<close>

lemma delete_type_is_allocation_type:
  assumes "t \<noteq> ArrayInt8"
  shows "(PushObjectAsRefParam_case t = Some cv \<longrightarrow> ArgsScope_delete_case t = Some (conv_ctype cv))
       \<and> (PushObjectAsParam_case t = Some (cv, True) \<longrightarrow> ArgsScope_delete_case t = Some (conv_ctype cv))
       \<and> (BeginExternalCall_case t = Some T \<longrightarrow> ArgsScope_delete_case t = Some T)"
  using assms by (cases t) auto

text \<open>
  C9 (the code at the failing input). A temporary with the tag \<^verbatim>\<open>ArrayInt8\<close> is
  allocated as a \<^verbatim>\<open>std::vector<int8_t>\<close> and the destructor deletes it as a
  \<^verbatim>\<open>std::vector<int16_t>\<close>; an outbound call with an \<^verbatim>\<open>ArrayInt8\<close> argument
  ends with that deletion.
\<close>

theorem ArrayInt8_temporary_deleted_as_int16_vector:
  "BeginExternalCall_case ArrayInt8 = Some (c_vector c_int8)
   \<and> PushObjectAsParam_case ArrayInt8 = Some (Arr c_int8, True)
   \<and> PushObjectAsRefParam_case ArrayInt8 = Some (Arr c_int8)
   \<and> ArgsScope_delete_case ArrayInt8 = Some (c_vector c_int16)
   \<and> ExternalCall env0 methodA8 4660 (PyTuple True [PyList True [PyLong 1, PyLong 2]]) st0
     = Inr (Some PyNone,
            st0\<lparr>calls := [(4660, [DcStorage 0])],
                freed := [(NVector c_int8 [NInt8 1, NInt8 2], c_vector c_int16)]\<rparr>)"
  by (simp add: marshal_defs outbound_defs env0_def st0_def methodA8_def)

section \<open>Reference parameters of the matrix type\<close>

lemma replicate_4: "replicate 4 x = [x, x, x, x]"
  by (simp add: numeral_eq_Suc)

lemma replicate_16: "replicate 16 x = [x, x, x, x, x, x, x, x, x, x, x, x, x, x, x, x]"
  by (simp add: numeral_eq_Suc)

text \<open>No instance of the matrix class is written back to a \<^verbatim>\<open>Matrix4x4\<close>
  reference parameter: the write-back fails and leaves the frame as it was.\<close>

lemma matrix_object_never_written_back:
  assumes "PyObject_IsInstance object Matrix4x4Type"
  shows "SetRefParam e object (Property Matrix4x4 r p) fr i st
           = Inr (False, fr, st\<lparr>err := Some (TypeError ''Not Vector2'')\<rparr>)"
  using assms
  by (auto simp: SetRefParam_def Vector2ValueFromObject_def PyObject_IsInstance_def
      PyErr_Set_def split: pyobj.splits)

text \<open>
  C2 (the code at the failing input). The case of \<^verbatim>\<open>SetRefParam\<close> for
  \<^verbatim>\<open>Matrix4x4\<close> calls the extractor of \<^verbatim>\<open>Vector2\<close>. A matrix object, which the
  matrix's own extractor converts, is rejected with "Not Vector2"; the inbound call
  prints that error and leaves the native matrix as it was.
\<close>

theorem matrix_reference_uses_Vector2_extractor:
  "SetRefParam_case Matrix4x4 = Some (Val c_Vector2)
   \<and> Matrix4x4ValueFromObject env0 matrixObject0 st0 = (Some (NMatrix4x4 (replicate 16 0)), st0)
   \<and> SetRefParam env0 matrixObject0 (Property Matrix4x4 True None) frM 0 st0
     = Inr (False, frM, st0\<lparr>err := Some (TypeError ''Not Vector2'')\<rparr>)
   \<and> InternalCall envM methodM (PyFunction 1) frM st0
     = Inr (frM, st0\<lparr>printed := [TypeError ''Not Vector2'']\<rparr>)"
  by (simp add: marshal_defs inbound_defs envM_def env0_def methodM_def frM_def st0_def
      matrixObject0_def construct0_def replicate_4 replicate_16)

section \<open>The shape of the result of a call with reference parameters\<close>

text \<open>The specification's example: two \<^verbatim>\<open>Int32\<close> reference parameters and a result
  tuple of two elements. The error is printed and the return slot is zero-filled.\<close>

lemma two_references_two_tuple_gives_fallback:
  "InternalCall envR2 methodR2 (PyFunction 1) frR2 st0
     = Inr (frR2\<lparr>retv := Some (NUIntPtr 0)\<rparr>,
            st0\<lparr>printed := [TypeError ''Returned tuple wrong size'']\<rparr>)"
  by (simp add: marshal_defs inbound_defs envR2_def env0_def methodR2_def frR2_def st0_def)

text \<open>With the return type \<^verbatim>\<open>ArrayBool\<close>, every failing step of an inbound call ends
  the process: in \<^verbatim>\<open>std::terminate()\<close>, or before it in \<^verbatim>\<open>PyErr_Print\<close> when the
  exception to print is \<^verbatim>\<open>SystemExit\<close>.\<close>

lemma failure_with_ArrayBool_return_terminates:
  assumes "step_fails e m func fr st s" and "ptype (retType m) = ArrayBool"
  shows "\<exists>f. InternalCall e m func fr st = Inl f"
proof -
  have exit: "\<And>frx pr. \<exists>f. fallback_exit e ArrayBool frx pr = Inl f"
  proof -
    fix frx :: frame and pr :: "fault + mstate"
    show "\<exists>f. fallback_exit e ArrayBool frx pr = Inl f"
      by (cases pr) (simp_all add: fallback_exit_def)
  qed
  from assms(1) obtain a st1 where
    b: "BuildArgs e (InternalCall_params m) fr (InternalCall_start e m) st = Inr (a, st1)"
    by (cases "BuildArgs e (InternalCall_params m) fr (InternalCall_start e m) st")
       (auto simp: step_fails_def)
  show ?thesis
  proof (cases a)
    case None
    with b assms(2) exit show ?thesis by (simp add: InternalCall_def)
  next
    case (Some argv)
    obtain ro st2 where c: "PyObject_CallObject e func argv st1 = (ro, st2)"
      by (cases "PyObject_CallObject e func argv st1")
    show ?thesis
    proof (cases ro)
      case None
      with b \<open>a = Some argv\<close> c assms(2) exit show ?thesis by (simp add: InternalCall_def)
    next
      case (Some result)
      let ?n = "refParamsCount_of (InternalCall_params m)"
      have "\<exists>f. InternalCall_result e m result fr st2 = Inl f"
      proof (cases "shape_ok m result")
        case False
        with assms(2) exit show ?thesis
          by (auto simp: InternalCall_result_def shape_ok_def Let_def)
      next
        case True
        with assms(1) b \<open>a = Some argv\<close> c Some
        have rf: "return_conversion_fails e m result fr st2"
          by (simp add: step_fails_def)
        let ?w = "if ?n \<noteq> 0
                  then WriteRefParams e (InternalCall_params m) (tuple_items result) ?n fr
                         (InternalCall_start e m) 0 st2
                  else Inr (fr, st2)"
        let ?ro = "if ?n \<noteq> 0 then tuple_items result ! 0 else result"
        from rf obtain fr1 st3 where w: "?w = Inr (fr1, st3)"
          by (cases ?w) (auto simp: return_conversion_fails_def)
        from rf w obtain fr2 st4 where
          sr: "SetReturn e ?ro (retType m) fr1 st3 = Inr (False, fr2, st4)"
          by (cases "SetReturn e ?ro (retType m) fr1 st3")
             (auto simp: return_conversion_fails_def)
        from True w sr assms(2) exit show ?thesis
          by (auto simp: InternalCall_result_def shape_ok_def Let_def)
      qed
      with b \<open>a = Some argv\<close> c Some show ?thesis by (simp add: InternalCall_def)
    qed
  qed
qed

text \<open>
  C5 (the code at the failing input). A method with one reference parameter and the
  return type \<^verbatim>\<open>ArrayBool\<close> whose script callable returns something that is not a
  tuple: \<^verbatim>\<open>SetFallbackReturn\<close> has no case for \<^verbatim>\<open>ArrayBool\<close> and the process is
  terminated; no fallback value reaches the return slot.
\<close>

theorem wrong_shape_with_ArrayBool_return_terminates:
  "refParamsCount_of (InternalCall_params methodB) = 1
   \<and> \<not> PyTuple_CheckExact (PyLong 1)
   \<and> SetFallbackReturn envB ArrayBool frB = Inl Terminate
   \<and> InternalCall envB methodB (PyFunction 1) frB st0 = Inl Terminate"
  by (simp add: marshal_defs inbound_defs envB_def env0_def methodB_def frB_def st0_def)

section \<open>Reference results of an outbound call\<close>

text \<open>
  C7 (the code at the failing input). A method \<^verbatim>\<open>(String, String ref) -> Void\<close>
  called with \<^verbatim>\<open>("in", "old")\<close>; the native function stores "new" in the referenced
  string. The two temporaries are at the indices 0 and 1 of the scope; the loop reads
  the reference parameter from index 0, so the result is \<^verbatim>\<open>(None, "in")\<close> and the
  post-call value "new" of the reference temporary is only deleted.
\<close>

theorem reference_result_read_from_wrong_temporary:
  "ExternalCall envS methodS 4660 argsS st0
     = Inr (Some (PyTuple True [PyNone, PyUnicode [105, 110]]),
            st0\<lparr>calls := [(4660, [DcStorage 0, DcStorage 1])],
                freed := [(NString [105, 110], c_string), (NString [110, 101, 119], c_string)]\<rparr>)"
  by (simp add: marshal_defs outbound_defs envS_def env0_def st0_def methodS_def argsS_def)

section \<open>The function identity cache\<close>

text \<open>The direction that works: a script function wrapped by
  \<^verbatim>\<open>GetOrCreateFunctionValue\<close> is what \<^verbatim>\<open>GetOrCreateFunctionObject\<close> returns for
  the address of its wrapper.\<close>

lemma script_function_round_trip:
  "GetOrCreateFunctionValue env0 methodV (PyFunction 7) st0 = (Some 4096, stF)
   \<and> GetOrCreateFunctionObject env0 methodV 4096 stF = (Some (PyFunction 7), stF)"
  by (simp add: marshal_defs env0_def st0_def stF_def Let_def)

text \<open>Every wrapper that \<^verbatim>\<open>GetOrCreateFunctionObject\<close> newly makes for a native
  address is entered in the map from script objects to addresses and is rejected by
  \<^verbatim>\<open>GetOrCreateFunctionValue\<close>, whatever the method.\<close>

lemma fresh_native_wrapper_is_rejected:
  assumes "FindExternal st a = None" and "GetJitFunc e m (jitCount st) \<noteq> 0"
  shows "\<exists>c st'. GetOrCreateFunctionObject e m a st = (Some c, st')
           \<and> FindInternal st' c = (case internalMap st c of None \<Rightarrow> a | Some a' \<Rightarrow> a')
           \<and> GetOrCreateFunctionValue e m' c st'
               = (None, st'\<lparr>err := Some (TypeError ''Not function'')\<rparr>)"
  using assms
  by (simp add: GetOrCreateFunctionObject_def GetOrCreateFunctionValue_def Let_def
      PyFunction_Check_def PyErr_Set_def FindInternal_def AddToFunctionsMap_def emplace_def
      split: option.splits)

text \<open>
  C1 (the code at the failing input). \<^verbatim>\<open>GetOrCreateFunctionObject\<close> wraps the
  native address 4660 in a new built-in function object and enters the pair in both
  maps. \<^verbatim>\<open>GetOrCreateFunctionValue\<close> on that object fails with "Not function":
  \<^verbatim>\<open>PyFunction_Check\<close> holds for functions defined in script code only and comes
  before the look-up, which would have found 4660.
\<close>

theorem native_wrapper_rejected_as_function_value:
  "GetOrCreateFunctionObject env0 methodV 4660 st0 = (Some (PyCFunction 4096), stW)
   \<and> FindInternal stW (PyCFunction 4096) = 4660
   \<and> GetOrCreateFunctionValue env0 methodV (PyCFunction 4096) stW
     = (None, stW\<lparr>err := Some (TypeError ''Not function'')\<rparr>)"
  by (simp add: marshal_defs env0_def st0_def stW_def Let_def)

section \<open>Failures of an inbound call\<close>


text \<open>A write-back that fails leaves the frame as it was.\<close>

lemma SetRefParam_failure_keeps_frame:
  "SetRefParam e object paramType fr index st = Inr (False, fr1, st1) \<Longrightarrow> fr1 = fr"
  by (auto simp: SetRefParam_def split: option.splits sum.splits prod.splits)





























































section \<open>Failures of an outbound call\<close>

lemma conv_post_bool: "ValueFromObject_bool obj st = (r, st1) \<Longrightarrow> conv_post st r st1"
  by (auto simp: conv_post_def ValueFromObject_bool_def PyErr_Set_def split: pyobj.splits)

lemma conv_post_char: "ValueFromObject_char obj st = Inr (r, st1) \<Longrightarrow> conv_post st r st1"
  by (auto simp: conv_post_def ValueFromObject_char_def PyErr_Set_def Let_def
      split: pyobj.splits if_splits option.splits)

lemma conv_post_char16: "ValueFromObject_char16 obj st = (r, st1) \<Longrightarrow> conv_post st r st1"
  by (auto simp: conv_post_def ValueFromObject_char16_def PyErr_Set_def Let_def
      split: pyobj.splits if_splits prod.splits)

lemma ConvertFunc_calls: "ConvertFunc e cf n st = (c, st1) \<Longrightarrow> calls st1 = calls st"
  by (cases cf) (auto simp: PyErr_Set_def split: if_splits)

lemma conv_post_number:
  "ValueFromNumberObject e T cf obj st = (r, st1) \<Longrightarrow> conv_post st r st1"
proof -
  assume a: "ValueFromNumberObject e T cf obj st = (r, st1)"
  obtain c st2 where c: "ConvertFunc e cf (long_value obj) st = (c, st2)"
    by (cases "ConvertFunc e cf (long_value obj) st")
  from ConvertFunc_calls [OF c] a c show ?thesis
    by (auto simp: conv_post_def ValueFromNumberObject_def PyErr_Set_def split: if_splits)
qed

lemma conv_post_voidptr: "ValueFromObject_voidptr obj st = (r, st1) \<Longrightarrow> conv_post st r st1"
  by (auto simp: conv_post_def ValueFromObject_voidptr_def PyLong_AsVoidPtr_def PyErr_Set_def
      Let_def split: if_splits)

lemma conv_post_float: "ValueFromObject_float e obj st = (r, st1) \<Longrightarrow> conv_post st r st1"
  by (auto simp: conv_post_def ValueFromObject_float_def PyErr_Set_def split: pyobj.splits)

lemma conv_post_double: "ValueFromObject_double obj st = (r, st1) \<Longrightarrow> conv_post st r st1"
  by (auto simp: conv_post_def ValueFromObject_double_def PyErr_Set_def split: pyobj.splits)

lemma conv_post_string: "ValueFromObject_string obj st = (r, st1) \<Longrightarrow> conv_post st r st1"
  by (auto simp: conv_post_def ValueFromObject_string_def PyErr_Set_def
      split: pyobj.splits option.splits)

lemma conv_post_trans:
  "conv_post st (Some x) st1 \<Longrightarrow> conv_post st1 r st2 \<Longrightarrow> conv_post st r st2"
  by (simp add: conv_post_def)

lemma conv_post_refl: "conv_post st (Some x) st"
  by (simp add: conv_post_def)

lemma conv_post_attr:
  "GetObjectAttrAsValue_float e obj n st = (r, st1) \<Longrightarrow> conv_post st r st1"
proof (cases "PyObject_GetAttrString obj n")
  case None
  assume "GetObjectAttrAsValue_float e obj n st = (r, st1)"
  with None show ?thesis
    by (auto simp: GetObjectAttrAsValue_float_def conv_post_def PyErr_Set_def)
next
  case (Some attrObject)
  assume a: "GetObjectAttrAsValue_float e obj n st = (r, st1)"
  obtain r' st' where v: "ValueFromObject_float e attrObject st = (r', st')"
    by (cases "ValueFromObject_float e attrObject st")
  from conv_post_float [OF v] a Some v show ?thesis
    by (auto simp: GetObjectAttrAsValue_float_def conv_post_def ValueFromObject_float_def
        split: option.splits nval.splits pyobj.splits)
qed


lemma conv_post_Vector2: "Vector2ValueFromObject e obj st = (r, st1) \<Longrightarrow> conv_post st r st1"
proof -
  assume a: "Vector2ValueFromObject e obj st = (r, st1)"
  obtain rx sx where x: "GetObjectAttrAsValue_float e obj ''x'' st = (rx, sx)"
    by (cases "GetObjectAttrAsValue_float e obj ''x'' st")
  obtain ry sy where y: "GetObjectAttrAsValue_float e obj ''y'' sx = (ry, sy)"
    by (cases "GetObjectAttrAsValue_float e obj ''y'' sx")
  from a x y conv_post_attr [OF x] conv_post_attr [OF y] show ?thesis
    by (auto simp: Vector2ValueFromObject_def conv_post_def PyErr_Set_def
        split: if_splits option.splits)
qed

lemma conv_post_Vector3: "Vector3ValueFromObject e obj st = (r, st1) \<Longrightarrow> conv_post st r st1"
proof -
  assume a: "Vector3ValueFromObject e obj st = (r, st1)"
  obtain rx sx where x: "GetObjectAttrAsValue_float e obj ''x'' st = (rx, sx)"
    by (cases "GetObjectAttrAsValue_float e obj ''x'' st")
  obtain ry sy where y: "GetObjectAttrAsValue_float e obj ''y'' sx = (ry, sy)"
    by (cases "GetObjectAttrAsValue_float e obj ''y'' sx")
  obtain rz sz where z: "GetObjectAttrAsValue_float e obj ''z'' sy = (rz, sz)"
    by (cases "GetObjectAttrAsValue_float e obj ''z'' sy")
  from a x y z conv_post_attr [OF x] conv_post_attr [OF y] conv_post_attr [OF z]
  show ?thesis
    by (auto simp: Vector3ValueFromObject_def conv_post_def PyErr_Set_def
        split: if_splits option.splits)
qed

lemma conv_post_Vector4: "Vector4ValueFromObject e obj st = (r, st1) \<Longrightarrow> conv_post st r st1"
proof -
  assume a: "Vector4ValueFromObject e obj st = (r, st1)"
  obtain rx sx where x: "GetObjectAttrAsValue_float e obj ''x'' st = (rx, sx)"
    by (cases "GetObjectAttrAsValue_float e obj ''x'' st")
  obtain ry sy where y: "GetObjectAttrAsValue_float e obj ''y'' sx = (ry, sy)"
    by (cases "GetObjectAttrAsValue_float e obj ''y'' sx")
  obtain rz sz where z: "GetObjectAttrAsValue_float e obj ''z'' sy = (rz, sz)"
    by (cases "GetObjectAttrAsValue_float e obj ''z'' sy")
  obtain rw sw where w: "GetObjectAttrAsValue_float e obj ''w'' sz = (rw, sw)"
    by (cases "GetObjectAttrAsValue_float e obj ''w'' sz")
  from a x y z w conv_post_attr [OF x] conv_post_attr [OF y] conv_post_attr [OF z]
    conv_post_attr [OF w]
  show ?thesis
    by (auto simp: Vector4ValueFromObject_def conv_post_def PyErr_Set_def
        split: if_splits option.splits)
qed

lemma conv_post_matrix_row: "matrix_row e ms st = (r, st1) \<Longrightarrow> conv_post st r st1"
proof (induction ms arbitrary: st r st1)
  case Nil
  then show ?case by (auto simp: conv_post_def)
next
  case (Cons mObject rest)
  obtain rf sf where f: "ValueFromObject_float e mObject st = (rf, sf)"
    by (cases "ValueFromObject_float e mObject st")
  obtain rr sr where rr: "matrix_row e rest sf = (rr, sr)"
    by (cases "matrix_row e rest sf")
  from Cons.prems f rr conv_post_float [OF f] Cons.IH [OF rr] show ?case
    by (auto simp: conv_post_def ValueFromObject_float_def split: option.splits nval.splits pyobj.splits)
qed

lemma conv_post_matrix_rows: "matrix_rows e rows st = (r, st1) \<Longrightarrow> conv_post st r st1"
proof (induction rows arbitrary: st r st1)
  case Nil
  then show ?case by (auto simp: conv_post_def)
next
  case (Cons row rest)
  show ?case
  proof (cases "\<exists>ms. row = PyList True ms \<and> length ms = 4")
    case False
    with Cons.prems show ?thesis
      by (auto simp: conv_post_def PyErr_Set_def split: pyobj.splits bool.splits if_splits)
  next
    case True
    then obtain ms where row: "row = PyList True ms" "length ms = 4" by blast
    obtain r1 s1 where a: "matrix_row e ms st = (r1, s1)"
      by (cases "matrix_row e ms st")
    obtain r2 s2 where b: "matrix_rows e rest s1 = (r2, s2)"
      by (cases "matrix_rows e rest s1")
    from Cons.prems row a b conv_post_matrix_row [OF a] Cons.IH [OF b] show ?thesis
      by (auto simp: conv_post_def split: option.splits)
  qed
qed

lemma conv_post_Matrix4x4:
  "Matrix4x4ValueFromObject e obj st = (r, st1) \<Longrightarrow> conv_post st r st1"
proof (cases "PyObject_IsInstance obj Matrix4x4Type
              \<and> (\<exists>rows. PyObject_GetAttrString obj ''elements'' = Some (PyList True rows)
                         \<and> length rows = 4)")
  case False
  assume "Matrix4x4ValueFromObject e obj st = (r, st1)"
  with False show ?thesis
    by (auto simp: Matrix4x4ValueFromObject_def conv_post_def PyErr_Set_def
        split: if_splits option.splits pyobj.splits bool.splits)
next
  case True
  assume a: "Matrix4x4ValueFromObject e obj st = (r, st1)"
  from True obtain rows where
    rows: "PyObject_GetAttrString obj ''elements'' = Some (PyList True rows)" "length rows = 4"
    by blast
  obtain r1 s1 where m: "matrix_rows e rows st = (r1, s1)"
    by (cases "matrix_rows e rows st")
  from a True rows m conv_post_matrix_rows [OF m] show ?thesis
    by (auto simp: Matrix4x4ValueFromObject_def conv_post_def split: option.splits)
qed

lemma conv_post_ValueFromObject:
  "ValueFromObject e T obj st = Inr (r, st1) \<Longrightarrow> conv_post st r st1"
  by (cases T)
     (auto dest: conv_post_bool conv_post_char conv_post_char16 conv_post_number
        conv_post_voidptr conv_post_float conv_post_double conv_post_string
        conv_post_Vector2 conv_post_Vector3 conv_post_Vector4 conv_post_Matrix4x4)

lemma conv_post_ArrayFromObject_loop:
  "ArrayFromObject_loop e T items st = Inr (r, st1) \<Longrightarrow> conv_post st r st1"
proof (induction items arbitrary: st r st1)
  case Nil
  then show ?case by (auto simp: conv_post_def)
next
  case (Cons valueObject rest)
  from Cons.prems obtain rv sv where v: "ValueFromObject e T valueObject st = Inr (rv, sv)"
    by (auto split: sum.splits)
  note pv = conv_post_ValueFromObject [OF v]
  show ?case
  proof (cases rv)
    case None
    with Cons.prems v pv show ?thesis by (auto simp: conv_post_def)
  next
    case (Some x)
    with Cons.prems v obtain rr sr where rr: "ArrayFromObject_loop e T rest sv = Inr (rr, sr)"
      by (auto split: sum.splits)
    from Cons.prems v Some rr pv Cons.IH [OF rr] show ?thesis
      by (auto simp: conv_post_def split: option.splits)
  qed
qed

lemma conv_post_ArrayFromObject:
  "ArrayFromObject e T obj st = Inr (r, st1) \<Longrightarrow> conv_post st r st1"
proof (cases "\<exists>b items. obj = PyList b items")
  case False
  assume "ArrayFromObject e T obj st = Inr (r, st1)"
  with False show ?thesis
    by (auto simp: ArrayFromObject_def conv_post_def PyErr_Set_def split: pyobj.splits)
next
  case True
  assume a: "ArrayFromObject e T obj st = Inr (r, st1)"
  from True obtain b items where o: "obj = PyList b items" by blast
  with a obtain rr sr where l: "ArrayFromObject_loop e T items st = Inr (rr, sr)"
    by (auto simp: ArrayFromObject_def split: sum.splits)
  from a o l conv_post_ArrayFromObject_loop [OF l] show ?thesis
    by (auto simp: ArrayFromObject_def conv_post_def split: option.splits)
qed

lemma conv_post_function:
  "GetOrCreateFunctionValue e m obj st = (r, st1) \<Longrightarrow> conv_post st r st1"
  by (auto simp: GetOrCreateFunctionValue_def conv_post_def PyErr_Set_def AddToFunctionsMap_def
      Let_def split: if_splits)

lemma conv_post_convert:
  "convert e cv proto obj st = Inr (r, st1) \<Longrightarrow> conv_post st r st1"
proof (cases cv)
  case (Val T)
  assume "convert e cv proto obj st = Inr (r, st1)"
  with Val show ?thesis by (auto dest: conv_post_ValueFromObject)
next
  case (Arr T)
  assume "convert e cv proto obj st = Inr (r, st1)"
  with Arr show ?thesis by (auto dest: conv_post_ArrayFromObject)
next
  case Fn
  assume a: "convert e cv proto obj st = Inr (r, st1)"
  with Fn obtain m where p: "proto = Some m" by (cases proto) auto
  obtain rf sf where f: "GetOrCreateFunctionValue e m obj st = (rf, sf)"
    by (cases "GetOrCreateFunctionValue e m obj st")
  from a Fn p f conv_post_function [OF f] show ?thesis
    by (auto simp: conv_post_def split: option.splits)
qed


lemma storage_tag_deletable:
  "PushObjectAsParam_case t = Some (cv, True) \<Longrightarrow> \<exists>D. ArgsScope_delete_case t = Some D"
  "PushObjectAsRefParam_case t = Some cv \<Longrightarrow> \<exists>D. ArgsScope_delete_case t = Some D"
  "BeginExternalCall_case t = Some T \<Longrightarrow> \<exists>D. ArgsScope_delete_case t = Some D"
  by (cases t; auto)+

lemma deletable_push_storage:
  "deletable a \<Longrightarrow> \<exists>D. ArgsScope_delete_case t = Some D \<Longrightarrow> deletable (push_storage v t a)"
  by (auto simp: deletable_def push_storage_def)

lemma deletable_push_value: "deletable a \<Longrightarrow> deletable (push_value v a)"
  by (simp add: deletable_def push_value_def)

lemma deletable_Begin: "deletable (BeginExternalCall m ArgsScope_new)"
proof (cases "BeginExternalCall_case (ptype (retType m))")
  case None
  then show ?thesis
    by (simp add: BeginExternalCall_def ArgsScope_new_def deletable_def)
next
  case (Some T)
  have "deletable ArgsScope_new"
    by (simp add: ArgsScope_new_def deletable_def)
  with Some storage_tag_deletable(3) [OF Some] show ?thesis
    by (simp add: BeginExternalCall_def deletable_push_storage)
qed

lemma PushObjectAsParam_post:
  assumes "PushObjectAsParam e p pItem a st = Inr (ok, a1, st1)"
  shows "calls st1 = calls st \<and> (ok \<or> err st1 \<noteq> None) \<and> (deletable a \<longrightarrow> deletable a1)"
proof (cases "PushObjectAsParam_case (ptype p)")
  case None
  with assms show ?thesis
    by (auto simp: PushObjectAsParam_def PyErr_Set_def)
next
  case (Some c)
  obtain cv toStorage where c: "c = (cv, toStorage)" by (cases c)
  from assms Some c obtain r s where
    cvt: "convert e cv (prototype p) pItem st = Inr (r, s)"
    by (auto simp: PushObjectAsParam_def split: sum.splits)
  note post = conv_post_convert [OF cvt]
  show ?thesis
  proof (cases r)
    case None
    with assms Some c cvt post show ?thesis
      by (auto simp: PushObjectAsParam_def conv_post_def)
  next
    case (Some v)
    with assms \<open>PushObjectAsParam_case (ptype p) = Some c\<close> c cvt post show ?thesis
      by (auto simp: PushObjectAsParam_def conv_post_def deletable_push_value
          deletable_push_storage storage_tag_deletable)
  qed
qed

lemma PushObjectAsRefParam_post:
  assumes "PushObjectAsRefParam e p pItem a st = Inr (ok, a1, st1)"
  shows "calls st1 = calls st \<and> (ok \<or> err st1 \<noteq> None) \<and> (deletable a \<longrightarrow> deletable a1)"
proof (cases "PushObjectAsRefParam_case (ptype p)")
  case None
  with assms show ?thesis
    by (auto simp: PushObjectAsRefParam_def PyErr_Set_def)
next
  case (Some cv)
  from assms Some obtain r s where
    cvt: "convert e cv (prototype p) pItem st = Inr (r, s)"
    by (auto simp: PushObjectAsRefParam_def split: sum.splits)
  note post = conv_post_convert [OF cvt]
  show ?thesis
  proof (cases r)
    case None
    with assms Some cvt post show ?thesis
      by (auto simp: PushObjectAsRefParam_def conv_post_def)
  next
    case (Some v)
    with assms \<open>PushObjectAsRefParam_case (ptype p) = Some cv\<close> cvt post show ?thesis
      by (auto simp: PushObjectAsRefParam_def conv_post_def deletable_push_storage
          storage_tag_deletable)
  qed
qed

lemma PushArgs_post:
  "PushArgs e ps items a st = Inr (ok, a1, st1)
   \<Longrightarrow> calls st1 = calls st \<and> (ok \<or> err st1 \<noteq> None) \<and> (deletable a \<longrightarrow> deletable a1)"
proof (induction e ps items a st rule: PushArgs.induct)
  case (1 e items a st)
  then show ?case by simp
next
  case (2 e paramType rest a st)
  then show ?case by simp
next
  case (3 e paramType rest pItem items a st)
  let ?push = "if ref paramType then PushObjectAsRefParam e paramType pItem a st
               else PushObjectAsParam e paramType pItem a st"
  from "3.prems" obtain ok2 a2 st2 where p: "?push = Inr (ok2, a2, st2)"
    by (cases ?push) auto
  have post: "calls st2 = calls st \<and> (ok2 \<or> err st2 \<noteq> None) \<and> (deletable a \<longrightarrow> deletable a2)"
    using p PushObjectAsParam_post PushObjectAsRefParam_post by (auto split: if_splits)
  show ?case
  proof (cases ok2)
    case False
    with "3.prems" p post show ?thesis by auto
  next
    case True
    with "3.prems" p have r: "PushArgs e rest items a2 st2 = Inr (ok, a1, st1)" by auto
    from "3.IH" [OF p refl refl True r] post show ?thesis by auto
  qed
qed

lemma ArgsScope_destroy_loop_ok:
  "list_all (\<lambda>(v, t). ArgsScope_delete_case t \<noteq> None) xs
   \<Longrightarrow> \<exists>st2. ArgsScope_destroy_loop xs st = Inr st2 \<and> calls st2 = calls st \<and> err st2 = err st"
proof (induction xs arbitrary: st)
  case Nil
  then show ?case by simp
next
  case (Cons x xs)
  obtain v t where x: "x = (v, t)" by (cases x)
  with Cons.prems obtain D where D: "ArgsScope_delete_case t = Some D" by auto
  from Cons.prems have "list_all (\<lambda>(v, t). ArgsScope_delete_case t \<noteq> None) xs" by simp
  from Cons.IH [OF this, of "st\<lparr>freed := freed st @ [(v, D)]\<rparr>"] x D show ?case
    by simp
qed

lemma ArgsScope_destroy_ok:
  "deletable a
   \<Longrightarrow> \<exists>st2. ArgsScope_destroy a st = Inr st2 \<and> calls st2 = calls st \<and> err st2 = err st"
  using ArgsScope_destroy_loop_ok by (simp add: ArgsScope_destroy_def deletable_def)

text \<open>
  The failures the code detects. For a method with fewer than 256 parameters (the
  count is read as an \<^verbatim>\<open>uint8_t\<close>): when the argument object is not a tuple, or its
  size differs from the number of declared parameters, or the push of an argument
  reports failure, \<^verbatim>\<open>ExternalCall\<close> returns the null pointer with a script error
  pending, so that the script caller gets an exception, and no native call has been
  made.
\<close>

lemma reported_marshaling_failure_raises:
  assumes len: "length (paramTypes m) < 256"
      and fails: "\<not> PyTuple_Check argsObj \<or> PyTuple_Size argsObj \<noteq> length (paramTypes m)
                  \<or> push_fails e m argsObj st"
  shows "\<exists>st'. ExternalCall e m addr argsObj st = Inr (None, st')
           \<and> err st' \<noteq> None \<and> calls st' = calls st"
proof (cases "PyTuple_Check argsObj \<and> PyTuple_Size argsObj = length (paramTypes m)")
  case False
  with len show ?thesis
    by (auto simp: ExternalCall_def PyErr_Set_def)
next
  case True
  with fails have pf: "push_fails e m argsObj st" by simp
  let ?a = "BeginExternalCall m ArgsScope_new"
  from pf obtain a1 st1 where
    p: "PushArgs e (ExternalCall_params m) (tuple_items argsObj) ?a st = Inr (False, a1, st1)"
    by (auto simp: push_fails_def split: sum.splits)
  from PushArgs_post [OF p] deletable_Begin
  have post: "calls st1 = calls st" "err st1 \<noteq> None" "deletable a1" by auto
  from ArgsScope_destroy_ok [OF post(3), of st1] obtain st2 where
    d: "ArgsScope_destroy a1 st1 = Inr st2" "calls st2 = calls st1" "err st2 = err st1"
    by blast
  from p have "ExternalCall_scoped e m addr argsObj ?a st = Inr (None, a1, st1)"
    by (simp add: ExternalCall_scoped_def Let_def)
  with True len d post show ?thesis
    by (auto simp: ExternalCall_def)
qed

lemma reported_marshaling_failure_examples:
  "length (paramTypes methodI) < 256
   \<and> push_fails env0 methodI (PyTuple True [PyUnicode [120]]) st0
   \<and> ExternalCall env0 methodI 4660 (PyTuple True [PyUnicode [120]]) st0
       = Inr (None, st0\<lparr>err := Some (TypeError ''Not integer'')\<rparr>)
   \<and> PyTuple_Size (PyTuple True []) \<noteq> length (paramTypes methodI)
   \<and> ExternalCall env0 methodI 4660 (PyTuple True []) st0
       = Inr (None, st0\<lparr>err := Some (TypeError ''Wrong number of parameters'')\<rparr>)"
  using reported_marshaling_failure_raises
          [of methodI "PyTuple True [PyUnicode [120]]" env0 st0 4660]
        reported_marshaling_failure_raises
          [of methodI "PyTuple True []" env0 st0 4660]
  by (simp add: marshal_defs outbound_defs push_fails_def env0_def st0_def methodI_def)

text \<open>
  C6 (the code at the failing input). A method \<^verbatim>\<open>(String) -> Void\<close> called with a
  string that is one lone surrogate, U+D800. \<^verbatim>\<open>PyUnicode_AsUTF8AndSize\<close> fails on
  it, and \<^verbatim>\<open>ValueFromObject<std::string>\<close> does not test the result: the conversion
  of the argument has failed, with \<^verbatim>\<open>UnicodeEncodeError\<close> pending, yet the push
  reports success with an empty string and the native function is called.
\<close>

theorem unencodable_string_argument_reaches_native_call:
  "utf8_encode [55296] = None
   \<and> ValueFromObject_string (PyUnicode [55296]) st0
     = (Some (NString []), st0\<lparr>err := Some UnicodeEncodeError\<rparr>)
   \<and> \<not> push_fails env0 methodT (PyTuple True [PyUnicode [55296]]) st0
   \<and> ExternalCall env0 methodT 4660 (PyTuple True [PyUnicode [55296]]) st0
     = Inr (Some PyNone,
            st0\<lparr>err := Some UnicodeEncodeError,
                calls := [(4660, [DcStorage 0])],
                freed := [(NString [], c_string)]\<rparr>)"
  by (simp add: marshal_defs outbound_defs push_fails_def env0_def st0_def methodT_def)

end
